theory Spec2Isabelle
  imports Complex_Main "HOL-Library.Multiset" "HOL-Library.Log_Nat" "HOL-Library.Word"
begin

section \<open>Data model\<close>

text \<open>
  A bounding box is a Python list: either \<open>[x, y, w, h]\<close> or a list of points
  \<open>[[x1, y1], [x2, y2], ...]\<close>; the source tells them apart by
  \<open>isinstance(bbox[0], list)\<close>.  The empty Python list is \<open>Polygon []\<close>: there
  \<open>bbox[0]\<close> raises \<open>IndexError\<close>.  Lists of other shapes (fewer than four
  numbers, a point with fewer than two entries, entries that are not numbers),
  on which the source raises as well, have no value in this type.

  The type of the coordinates is a parameter.  The Tesseract adapter builds
  its boxes from Python ints and never passes them to \<open>reconstruct_layout\<close>:
  there the coordinates are \<open>int\<close>.  The boxes that \<open>reconstruct_layout\<close>
  computes with have the type \<open>pixel\<close>: whole numbers in the signed 32-bit
  range, read with \<open>sint\<close>.  These are the integers that the EasyOCR adapter
  produces with \<open>int(...)\<close> and the whole-valued coordinates of PaddleOCR, on
  which Python's int and float operations give the same numbers.  Coordinates
  with a fractional part and integers outside the 32-bit range are not
  modelled: on the former the result of \<open>sum\<close> depends on the Python version,
  the latter lead to \<open>OverflowError\<close>, to infinities and to strings that do not
  fit into memory.  Memory itself is not bounded in the model.
\<close>

type_synonym pixel = "32 word"

datatype 'c bbox = AxisAligned 'c 'c 'c 'c | Polygon "('c \<times> 'c) list"

text \<open>The key \<open>'text'\<close> of a fragment dictionary is the field \<open>text'\<close>.\<close>

record 'c fragment =
  text' :: string
  confidence :: rat
  bbox :: "'c bbox"

datatype error = IndexError | BackendError string

text \<open>\<open>str(e)\<close> of the exception, as the adapters report it.\<close>

fun str_of_error :: "error \<Rightarrow> string" where
  "str_of_error IndexError = ''list index out of range''"
| "str_of_error (BackendError msg) = msg"

section \<open>Python primitives used by the source\<close>

text \<open>
  \<open>min(...)\<close> and \<open>max(...)\<close> over a non-empty iterable of ints, left to right.
  On an empty iterable Python raises \<open>ValueError\<close>; the source reaches \<open>min\<close> and
  \<open>max\<close> only after \<open>bbox[0]\<close> has been read, so only on non-empty point lists,
  and the value given here for \<open>[]\<close> is never used.
\<close>

fun py_min :: "int list \<Rightarrow> int" where
  "py_min (v # vs) = fold min vs v"
| "py_min [] = 0"

fun py_max :: "int list \<Rightarrow> int" where
  "py_max (v # vs) = fold max vs v"
| "py_max [] = 0"

text \<open>\<open>int(q)\<close> on a number truncates towards zero.\<close>

definition py_int :: "rat \<Rightarrow> int" where
  "py_int q = (if 0 \<le> q then \<lfloor>q\<rfloor> else \<lceil>q\<rceil>)"

text \<open>\<open>" " * n\<close>: the empty string when \<open>n \<le> 0\<close>.\<close>

definition spaces_str :: "int \<Rightarrow> string" where
  "spaces_str n = replicate (nat n) CHR '' ''"

text \<open>\<open>"\n".join(output_lines)\<close>.\<close>

fun join_lines :: "string list \<Rightarrow> string" where
  "join_lines [] = []"
| "join_lines [l] = l"
| "join_lines (l # ls) = l @ [CHR 0x0A] @ join_lines ls"

section \<open>Double-precision arithmetic\<close>

text \<open>
  A Python float is an IEEE 754 double; a finite double is a rational number,
  and every arithmetic operation returns the double nearest to the exact
  result, ties going to the even significand.  \<open>fl\<close> is that rounding:
  \<open>binade q\<close> is the exponent \<open>e\<close> with \<open>2^e \<le> |q| < 2^(e+1)\<close>, the doubles near
  \<open>q\<close> are the multiples of \<open>2^(e-52)\<close> (of \<open>2^(-1074)\<close> below the normal range),
  and \<open>q\<close> goes to the nearest of them.  No result in \<open>reconstruct_layout\<close> on
  32-bit coordinates comes near the largest double, so there is no overflow to
  model.
\<close>

type_synonym pyfloat = rat

definition round_half_even :: "rat \<Rightarrow> int" where
  "round_half_even q =
     (let f = \<lfloor>q\<rfloor>; d = q - of_int f
      in if d < 1 / 2 then f else if 1 / 2 < d then f + 1 else if even f then f else f + 1)"

definition binade :: "rat \<Rightarrow> int" where
  "binade q =
     (case quotient_of \<bar>q\<bar> of
        (a, b) \<Rightarrow> (let d = bitlen a - bitlen b in if 2 powi d \<le> \<bar>q\<bar> then d else d - 1))"

definition fl :: "rat \<Rightarrow> pyfloat" where
  "fl q =
     (if q = 0 then 0
      else (let u = 2 powi (max (binade q) (- 1022) - 52)
            in of_int (round_half_even (q / u)) * u))"

text \<open>
  The conversion of an int operand in mixed arithmetic, the true division
  \<open>a / b\<close> of two ints (correctly rounded in Python; the divisors of the source
  are 2, 10 and the length of a non-empty list) and the float operations.
\<close>

definition float_of_int :: "int \<Rightarrow> pyfloat" where
  "float_of_int n = fl (of_int n)"

definition int_truediv :: "int \<Rightarrow> int \<Rightarrow> pyfloat" where
  "int_truediv a b = fl (of_int a / of_int b)"

definition float_add :: "pyfloat \<Rightarrow> pyfloat \<Rightarrow> pyfloat" where
  "float_add a b = fl (a + b)"

definition float_sub :: "pyfloat \<Rightarrow> pyfloat \<Rightarrow> pyfloat" where
  "float_sub a b = fl (a - b)"

definition float_mul :: "pyfloat \<Rightarrow> pyfloat \<Rightarrow> pyfloat" where
  "float_mul a b = fl (a * b)"

section \<open>Geometry helpers of \<open>reconstruct_layout\<close>\<close>

text \<open>
  The helpers are the nested functions of \<open>reconstruct_layout\<close>.  On the empty
  list they raise in the source; \<open>reconstruct_layout\<close> below takes that branch
  where the source first evaluates \<open>bbox[0]\<close>, so the helpers are only applied to
  boxes on which the source returns.  \<open>sum(ys)\<close>, \<open>min\<close>, \<open>max\<close> and the
  differences of ints are exact in Python; \<open>sum(ys) / len(ys)\<close>, \<open>bbox[3] / 2\<close>
  and the sum \<open>bbox[1] + ...\<close> are floats.
\<close>

fun get_cy :: "pixel bbox \<Rightarrow> pyfloat" where
  "get_cy (Polygon ps) =
     (let ys = map (\<lambda>p. sint (snd p)) ps in int_truediv (sum_list ys) (int (length ys)))"
| "get_cy (AxisAligned x y w h) = float_add (float_of_int (sint y)) (int_truediv (sint h) 2)"

fun get_cx :: "pixel bbox \<Rightarrow> pyfloat" where
  "get_cx (Polygon ps) =
     (let xs = map (\<lambda>p. sint (fst p)) ps in int_truediv (sum_list xs) (int (length xs)))"
| "get_cx (AxisAligned x y w h) = float_add (float_of_int (sint x)) (int_truediv (sint w) 2)"

fun get_x :: "pixel bbox \<Rightarrow> int" where
  "get_x (Polygon ps) = py_min (map (\<lambda>p. sint (fst p)) ps)"
| "get_x (AxisAligned x y w h) = sint x"

fun get_h :: "pixel bbox \<Rightarrow> int" where
  "get_h (Polygon ps) =
     (let ys = map (\<lambda>p. sint (snd p)) ps in py_max ys - py_min ys)"
| "get_h (AxisAligned x y w h) = sint h"

text \<open>The update of \<open>last_x_end\<close> at the end of the inner loop body.\<close>

fun x_end :: "pixel bbox \<Rightarrow> int" where
  "x_end (Polygon ps) = py_max (map (\<lambda>p. sint (fst p)) ps)"
| "x_end (AxisAligned x y w h) = sint x + sint w"

text \<open>
  The centre as the specification words it, in exact arithmetic: the
  arithmetic mean of the points' Y coordinates for a polygon, \<open>y + h/2\<close> for an
  axis-aligned box.  The boxes of the specification's data model are
  \<open>[x, y, w, h]\<close> and the polygons of four points.
\<close>

fun spec_centerY :: "pixel bbox \<Rightarrow> rat" where
  "spec_centerY (Polygon ps) =
     of_int (sum_list (map (\<lambda>p. sint (snd p)) ps)) / of_nat (length ps)"
| "spec_centerY (AxisAligned x y w h) = of_int (sint y) + of_int (sint h) / 2"

fun spec_box :: "pixel bbox \<Rightarrow> bool" where
  "spec_box (Polygon ps) = (length ps = 4)"
| "spec_box (AxisAligned x y w h) = True"

section \<open>Layout reconstruction\<close>

text \<open>
  The test \<open>y_diff < h * 0.5\<close> of the grouping loop, against the row's last
  member: \<open>y_diff\<close> is the rounded difference of the two float centres, \<open>h\<close> an
  int that the product converts to a float.
\<close>

definition same_row :: "pixel fragment \<Rightarrow> pixel fragment \<Rightarrow> bool" where
  "same_row prev_box box =
     (let h = get_h (bbox prev_box);
          y_diff = \<bar>float_sub (get_cy (bbox box)) (get_cy (bbox prev_box))\<bar>
      in y_diff < float_mul (float_of_int h) (1 / 2))"

text \<open>
  The loop \<open>for i in range(1, len(lines))\<close>: the state is \<open>rows\<close> and
  \<open>current_row\<close>; \<open>current_row[-1]\<close> is \<open>last current_row\<close>.
\<close>

fun group_loop ::
  "pixel fragment list list \<Rightarrow> pixel fragment list \<Rightarrow> pixel fragment list
   \<Rightarrow> pixel fragment list list \<times> pixel fragment list"
where
  "group_loop rows current_row [] = (rows, current_row)"
| "group_loop rows current_row (box # rest) =
     (if same_row (last current_row) box
      then group_loop rows (current_row @ [box]) rest
      else group_loop (rows @ [current_row]) [box] rest)"

definition group_rows :: "pixel fragment list \<Rightarrow> pixel fragment list list" where
  "group_rows lines =
     (case lines of
        [] \<Rightarrow> []
      | l0 # rest \<Rightarrow>
          (case group_loop [] [l0] rest of
             (rows, current_row) \<Rightarrow>
               if current_row \<noteq> [] then rows @ [current_row] else rows))"

text \<open>
  The inner loop \<open>for item in row\<close>: the state is \<open>line_text\<close> and \<open>last_x_end\<close>.
  \<open>gap\<close> is an int, \<open>gap / 10\<close> a float, \<open>spaces\<close> its integer part.
\<close>

fun line_loop :: "string \<Rightarrow> int \<Rightarrow> pixel fragment list \<Rightarrow> string" where
  "line_loop line_text last_x_end [] = line_text"
| "line_loop line_text last_x_end (item # rest) =
     (let box = bbox item;
          x_start = get_x box;
          line_text1 =
            (if last_x_end > 0
             then (let gap = max 0 (x_start - last_x_end);
                       spaces = py_int (int_truediv gap 10)
                   in line_text @ spaces_str spaces)
             else line_text);
          line_text2 = line_text1 @ text' item
      in line_loop line_text2 (x_end box) rest)"

text \<open>One iteration of \<open>for row in rows\<close>: sort the row by \<open>get_x\<close>, build its line.\<close>

definition row_line :: "pixel fragment list \<Rightarrow> string" where
  "row_line row = line_loop [] 0 (sort_key (\<lambda>l. get_x (bbox l)) row)"

text \<open>
  \<open>reconstruct_layout\<close> returns the string and, as \<open>lines.sort\<close> works in place,
  the caller's list as the call leaves it.  \<open>list.sort(key=...)\<close> evaluates the key
  on every element before it compares any, so an empty bbox raises \<open>IndexError\<close>
  at \<open>bbox[0]\<close> in \<open>get_cy\<close> and the list is left as it was; Python's sort is stable,
  as \<open>sort_key\<close> is.
\<close>

definition reconstruct_layout ::
  "pixel fragment list \<Rightarrow> error + (string \<times> pixel fragment list)" where
  "reconstruct_layout lines =
     (if lines = [] then Inr ([], lines)
      else if list_ex (\<lambda>l. bbox l = Polygon []) lines then Inl IndexError
      else
        (let lines1 = sort_key (\<lambda>l. get_cy (bbox l)) lines;
             rows = group_rows lines1;
             output_lines = map row_line rows
         in Inr (join_lines output_lines, lines1)))"

text \<open>The value the Python function returns to its caller: the string alone.\<close>

definition layout_text :: "pixel fragment list \<Rightarrow> error + string" where
  "layout_text lines =
     (case reconstruct_layout lines of Inl e \<Rightarrow> Inl e | Inr (out, lines1) \<Rightarrow> Inr out)"

text \<open>The negated test between the last member of one row and the first of the next.\<close>

definition row_break :: "pixel fragment list \<Rightarrow> pixel fragment list \<Rightarrow> bool" where
  "row_break r1 r2 = (\<not> same_row (last r1) (hd r2))"

section \<open>Engine adapters\<close>

text \<open>
  The result dictionary of \<open>recognize\<close> and \<open>process_image\<close>: a key that a branch
  does not set is \<open>None\<close>.
\<close>

record 'c ocr_result =
  res_success :: bool
  res_text :: "string option"
  res_lines :: "'c fragment list option"
  res_engine :: "string option"
  res_error :: "string option"

type_synonym path = string

text \<open>The dictionary of the \<open>except Exception as e\<close> branch of every adapter.\<close>

definition failure_result :: "string \<Rightarrow> error \<Rightarrow> 'c ocr_result" where
  "failure_result kind e =
     \<lparr>res_success = False, res_text = None, res_lines = None,
      res_engine = Some kind, res_error = Some (str_of_error e)\<rparr>"

definition success_result :: "string \<Rightarrow> string \<Rightarrow> 'c fragment list \<Rightarrow> 'c ocr_result" where
  "success_result kind t ls =
     \<lparr>res_success = True, res_text = Some t, res_lines = Some ls,
      res_engine = Some kind, res_error = None\<rparr>"

text \<open>Sequencing inside a \<open>try\<close> block: the first exception ends the block.\<close>

definition bind_err :: "error + 'a \<Rightarrow> ('a \<Rightarrow> error + 'b) \<Rightarrow> error + 'b" where
  "bind_err m f = (case m of Inl e \<Rightarrow> Inl e | Inr v \<Rightarrow> f v)"

text \<open>\<open>xs[i]\<close> for an index from \<open>range(...)\<close>.\<close>

definition py_index :: "'a list \<Rightarrow> nat \<Rightarrow> error + 'a" where
  "py_index xs i = (if i < length xs then Inr (xs ! i) else Inl IndexError)"

subsection \<open>PaddleOCR\<close>

text \<open>
  A raw detection is \<open>[bbox, (text, confidence)]\<close>; the backend's result is a list
  whose first element is the list of detections or \<open>None\<close>.  The backend call
  \<open>self.ocr.ocr\<close> is a parameter: it returns or raises.
\<close>

type_synonym paddle_line = "pixel bbox \<times> (string \<times> rat)"

definition paddle_fragment :: "paddle_line \<Rightarrow> pixel fragment" where
  "paddle_fragment line =
     (let bbox = fst line; text_info = snd line;
          text = fst text_info; confidence = snd text_info
      in \<lparr>text' = text, confidence = confidence, bbox = bbox\<rparr>)"

definition PaddleOCREngine_recognize ::
  "(path \<Rightarrow> error + paddle_line list option list) \<Rightarrow> path \<Rightarrow> pixel ocr_result" where
  "PaddleOCREngine_recognize ocr image_path =
     (case
        bind_err (ocr image_path) (\<lambda>result.
          case result of
            [] \<Rightarrow> Inr (success_result ''paddleocr'' [] [])
          | None # _ \<Rightarrow> Inr (success_result ''paddleocr'' [] [])
          | Some [] # _ \<Rightarrow> Inr (success_result ''paddleocr'' [] [])
          | Some raw # _ \<Rightarrow>
              (let lines = map paddle_fragment raw
               in bind_err (reconstruct_layout lines) (\<lambda>(out, lines1).
                    Inr (success_result ''paddleocr'' out lines1))))
      of Inl e \<Rightarrow> failure_result ''paddleocr'' e
       | Inr r \<Rightarrow> r)"

subsection \<open>Tesseract\<close>

text \<open>
  \<open>image_to_data\<close> with \<open>Output.DICT\<close> gives parallel lists; confidences and
  coordinates are Python ints.
\<close>

record tess_data =
  d_text :: "string list"
  d_conf :: "int list"
  d_left :: "int list"
  d_top :: "int list"
  d_width :: "int list"
  d_height :: "int list"

text \<open>
  \<open>str.strip()\<close>: whitespace is removed from both ends.  Characters are the code
  points below 256; \<open>py_isspace\<close> lists those that \<open>str.isspace\<close> accepts.
\<close>

definition py_isspace :: "char \<Rightarrow> bool" where
  "py_isspace c =
     (of_char c \<in> {9, 10, 11, 12, 13, 28, 29, 30, 31, 32, 133, 160 :: nat})"

definition py_strip :: "string \<Rightarrow> string" where
  "py_strip s = rev (dropWhile py_isspace (rev (dropWhile py_isspace s)))"

text \<open>
  The body of \<open>for i in range(n_boxes)\<close>, with the lists read in the order of
  the source: \<open>conf\<close> for the test, then \<open>text\<close>, \<open>conf\<close>, \<open>left\<close>, \<open>top\<close>,
  \<open>width\<close>, \<open>height\<close>.  The confidence \<open>float(conf) / 100.0\<close> is kept as the
  exact quotient.
\<close>

definition tess_step ::
  "tess_data \<Rightarrow> nat \<Rightarrow> int fragment list \<Rightarrow> error + int fragment list" where
  "tess_step data i lines =
     bind_err (py_index (d_conf data) i) (\<lambda>c.
       if c > 0 then
         bind_err (py_index (d_text data) i) (\<lambda>t.
         bind_err (py_index (d_conf data) i) (\<lambda>c2.
         bind_err (py_index (d_left data) i) (\<lambda>l.
         bind_err (py_index (d_top data) i) (\<lambda>tp.
         bind_err (py_index (d_width data) i) (\<lambda>w.
         bind_err (py_index (d_height data) i) (\<lambda>h.
           Inr (lines @
             [\<lparr>text' = t, confidence = of_int c2 / 100,
               bbox = AxisAligned l tp w h\<rparr>])))))))
       else Inr lines)"

fun tess_loop ::
  "tess_data \<Rightarrow> nat list \<Rightarrow> int fragment list \<Rightarrow> error + int fragment list" where
  "tess_loop data [] lines = Inr lines"
| "tess_loop data (i # rest) lines =
     bind_err (tess_step data i lines) (\<lambda>lines1. tess_loop data rest lines1)"

definition tess_lines :: "tess_data \<Rightarrow> error + int fragment list" where
  "tess_lines data = (let n_boxes = length (d_text data) in tess_loop data [0..<n_boxes] [])"

text \<open>
  \<open>Image.open\<close>, \<open>image_to_data\<close> and \<open>image_to_string\<close> are parameters: each
  returns or raises.
\<close>

definition TesseractOCREngine_recognize ::
  "(path \<Rightarrow> error + 'img) \<Rightarrow> ('img \<Rightarrow> error + tess_data) \<Rightarrow> ('img \<Rightarrow> error + string)
   \<Rightarrow> path \<Rightarrow> int ocr_result" where
  "TesseractOCREngine_recognize Image_open image_to_data image_to_string image_path =
     (case
        bind_err (Image_open image_path) (\<lambda>image.
        bind_err (image_to_data image) (\<lambda>data.
        bind_err (image_to_string image) (\<lambda>s.
          (let text = py_strip s
           in bind_err (tess_lines data) (\<lambda>lines.
                Inr (success_result ''tesseract'' text lines))))))
      of Inl e \<Rightarrow> failure_result ''tesseract'' e
       | Inr r \<Rightarrow> r)"

subsection \<open>EasyOCR\<close>

text \<open>
  \<open>readtext\<close> returns a list of \<open>(bbox, text, prob)\<close>; every point of the bbox
  is rebuilt as \<open>[int(p[0]), int(p[1])]\<close>.  The raw coordinates are numpy
  integers, and \<open>int\<close> gives the Python int of the same value.
\<close>

type_synonym easy_detection = "(pixel \<times> pixel) list \<times> string \<times> rat"

definition easy_fragment :: "easy_detection \<Rightarrow> pixel fragment" where
  "easy_fragment d =
     (case d of (box, t, prob) \<Rightarrow>
        \<lparr>text' = t, confidence = prob,
         bbox = Polygon (map (\<lambda>p. (fst p, snd p)) box)\<rparr>)"

definition EasyOCREngine_recognize ::
  "(path \<Rightarrow> error + easy_detection list) \<Rightarrow> path \<Rightarrow> pixel ocr_result" where
  "EasyOCREngine_recognize readtext image_path =
     (case
        bind_err (readtext image_path) (\<lambda>results.
          (let lines = map easy_fragment results
           in bind_err (reconstruct_layout lines) (\<lambda>(out, lines1).
                Inr (success_result ''easyocr'' out lines1))))
      of Inl e \<Rightarrow> failure_result ''easyocr'' e
       | Inr r \<Rightarrow> r)"

section \<open>The service\<close>

text \<open>
  \<open>OCRService.process_image\<close>.  \<open>Path(image_path).exists()\<close> and the configured
  engine's \<open>recognize\<close> are parameters; the engine works on a state \<open>'s\<close> (its
  backend, its log), so that a call of \<open>recognize\<close> is visible in the model.
\<close>

definition not_found_result :: "path \<Rightarrow> 'c ocr_result" where
  "not_found_result image_path =
     \<lparr>res_success = False, res_text = None, res_lines = None, res_engine = None,
      res_error = Some (''Image file not found: '' @ image_path)\<rparr>"

definition process_image ::
  "(path \<Rightarrow> bool) \<Rightarrow> (path \<Rightarrow> 's \<Rightarrow> 'c ocr_result \<times> 's) \<Rightarrow> path \<Rightarrow> 's
   \<Rightarrow> 'c ocr_result \<times> 's" where
  "process_image path_exists recognize image_path s =
     (if \<not> path_exists image_path then (not_found_result image_path, s)
      else recognize image_path s)"

section \<open>Image cropping\<close>

text \<open>
  An image is its rows, each a list of pixels; \<open>image.shape[:2]\<close> is the number
  of rows and the length of a row.  (An array without rows has its own width in
  numpy; with no rows \<open>h\<close> is clamped to 0 and the width is never used.)
  The coordinates are Python integers.
\<close>

type_synonym 'a image = "'a list list"

definition shape_height :: "'a image \<Rightarrow> int" where
  "shape_height img = int (length img)"

definition shape_width :: "'a image \<Rightarrow> int" where
  "shape_width img = (case img of [] \<Rightarrow> 0 | r # _ \<Rightarrow> int (length r))"

text \<open>\<open>xs[a:b]\<close> for bounds that are not negative.\<close>

definition py_slice :: "'a list \<Rightarrow> int \<Rightarrow> int \<Rightarrow> 'a list" where
  "py_slice xs a b = take (nat b - nat a) (drop (nat a) xs)"

definition crop :: "'a image \<Rightarrow> int \<Rightarrow> int \<Rightarrow> int \<Rightarrow> int \<Rightarrow> 'a image" where
  "crop img x y w h =
     (let height = shape_height img; width = shape_width img;
          x1 = max 0 (min x width);
          y1 = max 0 (min y height);
          w1 = max 0 (min w (width - x1));
          h1 = max 0 (min h (height - y1))
      in if w1 = 0 \<or> h1 = 0 then img
         else map (\<lambda>row. py_slice row x1 (x1 + w1)) (py_slice img y1 (y1 + h1)))"

section \<open>Properties of the rounding\<close>

lemma bitlen_rat_bounds:
  assumes "0 < a"
  shows "(2::rat) powi (bitlen a - 1) \<le> of_int a" and "of_int a < (2::rat) powi (bitlen a)"
proof -
  from bitlen_bounds [OF assms]
  have l: "2 ^ nat (bitlen a - 1) \<le> a" and u: "a < 2 ^ nat (bitlen a)" by simp_all
  have p: "1 \<le> bitlen a" using assms bitlen_eq_zero_iff [of a] bitlen_nonneg [of a] by linarith
  have "(2::rat) powi (bitlen a - 1) = 2 ^ nat (bitlen a - 1)"
    using p by (simp add: power_int_def)
  also have "\<dots> = of_int (2 ^ nat (bitlen a - 1))" by simp
  also have "\<dots> \<le> of_int a" using l by (simp only: of_int_le_iff)
  finally show "(2::rat) powi (bitlen a - 1) \<le> of_int a" .
  have "of_int a < (of_int (2 ^ nat (bitlen a)) :: rat)" using u by (simp only: of_int_less_iff)
  also have "\<dots> = 2 ^ nat (bitlen a)" by simp
  also have "\<dots> = (2::rat) powi (bitlen a)" using p by (simp add: power_int_def)
  finally show "of_int a < (2::rat) powi (bitlen a)" .
qed

lemma binade_bounds:
  assumes "q \<noteq> 0"
  shows "2 powi (binade q) \<le> \<bar>q\<bar>" and "\<bar>q\<bar> < 2 powi (binade q + 1)"
proof -
  obtain a b where ab: "quotient_of \<bar>q\<bar> = (a, b)" by force
  have b0: "0 < b" using ab by (rule quotient_of_denom_pos)
  have qd: "\<bar>q\<bar> = of_int a / of_int b" using ab by (rule quotient_of_div)
  have q0: "0 < \<bar>q\<bar>" using assms by simp
  have a0: "0 < a"
  proof (rule ccontr)
    assume "\<not> 0 < a"
    then have "of_int a \<le> (0::rat)" by simp
    then have "of_int a / of_int b \<le> (0::rat)" using b0 by (simp add: divide_le_0_iff)
    with q0 qd show False by simp
  qed
  define d where "d = bitlen a - bitlen b"
  have bd: "binade q = (if 2 powi d \<le> \<bar>q\<bar> then d else d - 1)"
    by (simp add: binade_def ab d_def Let_def)
  have B: "0 < (of_int b :: rat)" using b0 by simp
  have up: "\<bar>q\<bar> < 2 powi (d + 1)"
  proof -
    have "of_int a < (2::rat) powi (bitlen a)" using a0 by (rule bitlen_rat_bounds)
    also have "\<dots> = 2 powi (d + 1) * 2 powi (bitlen b - 1)"
      by (simp add: d_def power_int_add [symmetric])
    also have "\<dots> \<le> 2 powi (d + 1) * of_int b"
      using bitlen_rat_bounds(1) [OF b0] by (simp add: mult_left_mono)
    finally have "of_int a / of_int b < (2::rat) powi (d + 1)"
      using B by (simp add: divide_less_eq)
    then show ?thesis by (simp only: qd)
  qed
  have lo: "2 powi (d - 1) \<le> \<bar>q\<bar>"
  proof -
    have "2 powi (d - 1) * of_int b \<le> 2 powi (d - 1) * (2::rat) powi (bitlen b)"
      using bitlen_rat_bounds(2) [OF b0] by (simp add: mult_left_mono)
    also have "\<dots> = (2::rat) powi (bitlen a - 1)"
      by (simp add: d_def power_int_add [symmetric])
    also have "\<dots> \<le> of_int a" using a0 by (rule bitlen_rat_bounds)
    finally have "(2::rat) powi (d - 1) \<le> of_int a / of_int b"
      using B by (simp add: le_divide_eq)
    then show ?thesis by (simp only: qd)
  qed
  show "2 powi (binade q) \<le> \<bar>q\<bar>" using lo by (simp add: bd)
  show "\<bar>q\<bar> < 2 powi (binade q + 1)" using up by (auto simp add: bd)
qed

lemma round_half_even_of_int: "round_half_even (of_int n) = n"
  by (simp add: round_half_even_def)

lemma round_half_even_error: "\<bar>of_int (round_half_even q) - q\<bar> \<le> 1 / 2"
proof -
  have "of_int \<lfloor>q\<rfloor> \<le> q" "q < of_int \<lfloor>q\<rfloor> + 1" by linarith+
  then show ?thesis
    by (auto simp add: round_half_even_def Let_def abs_le_iff)
qed


lemma fl_0: "fl 0 = 0"
  by (simp add: fl_def)

lemma binade_less:
  assumes "q \<noteq> 0" and "\<bar>q\<bar> < 2 powi n"
  shows "binade q < n"
proof (rule ccontr)
  assume "\<not> binade q < n"
  then have "n \<le> binade q" by simp
  then have "(2::rat) powi n \<le> 2 powi binade q" by (intro power_int_increasing) simp_all
  also have "\<dots> \<le> \<bar>q\<bar>" using assms(1) by (rule binade_bounds)
  finally show False using assms(2) by simp
qed

lemma binade_ge:
  assumes "q \<noteq> 0" and "2 powi n \<le> \<bar>q\<bar>"
  shows "n \<le> binade q"
proof (rule ccontr)
  assume "\<not> n \<le> binade q"
  then have "binade q + 1 \<le> n" by simp
  then have "(2::rat) powi (binade q + 1) \<le> 2 powi n" by (intro power_int_increasing) simp_all
  with binade_bounds(2) [OF assms(1)] assms(2) show False by simp
qed

text \<open>A number with at most 53 significant bits is a double: rounding leaves it as it is.\<close>

lemma fl_exact:
  assumes "\<bar>m\<bar> < 2 ^ 53" and "- 1074 \<le> k"
  shows "fl (of_int m * 2 powi k) = of_int m * 2 powi k"
proof (cases "m = 0")
  case True
  then show ?thesis by (simp add: fl_0)
next
  case False
  define q :: rat where "q = of_int m * 2 powi k"
  have q0: "q \<noteq> 0" using False by (simp add: q_def)
  have "\<bar>q\<bar> = of_int \<bar>m\<bar> * 2 powi k" by (simp add: q_def abs_mult)
  also have "\<dots> < of_int (2 ^ 53) * 2 powi k"
    using assms(1) by (intro mult_strict_right_mono) (simp_all only: of_int_less_iff zero_less_power_int zero_less_numeral)
  also have "\<dots> = 2 powi (53 + k)" by (simp add: power_int_add)
  finally have "binade q < 53 + k" using q0 by (intro binade_less)
  then have t: "max (binade q) (- 1022) - 52 \<le> k" using assms(2) by simp
  define t where "t = max (binade q) (- 1022) - 52"
  have kt: "0 \<le> k - t" using t by (simp add: t_def)
  have "q / 2 powi t = of_int m * 2 powi (k - t)"
    by (simp add: q_def power_int_diff)
  also have "\<dots> = of_int (m * 2 ^ nat (k - t))"
    using kt by (simp add: power_int_nonneg_exp)
  finally have "round_half_even (q / 2 powi t) = m * 2 ^ nat (k - t)"
    by (simp only: round_half_even_of_int)
  then have "fl q = of_int (m * 2 ^ nat (k - t)) * 2 powi t"
    using q0 by (simp add: fl_def Let_def t_def)
  also have "\<dots> = of_int m * (2 powi (k - t) * 2 powi t)"
    using kt by (simp add: power_int_nonneg_exp)
  also have "2 powi (k - t) * 2 powi t = (2::rat) powi k"
    by (simp add: power_int_add [symmetric])
  finally show ?thesis by (simp only: q_def)
qed

lemma fl_of_int: "\<bar>m\<bar> < 2 ^ 53 \<Longrightarrow> fl (of_int m) = of_int m"
  using fl_exact [of m 0] by simp

lemma fl_half: "\<bar>m\<bar> < 2 ^ 53 \<Longrightarrow> fl (of_int m / 2) = of_int m / 2"
  using fl_exact [of m "- 1"] by (simp add: power_int_minus field_simps)

lemma fl_quarter: "\<bar>m\<bar> < 2 ^ 53 \<Longrightarrow> fl (of_int m / 4) = of_int m / 4"
  using fl_exact [of m "- 2"] by (simp add: power_int_minus field_simps)

text \<open>The rounding error is at most half a unit in the last place.\<close>

lemma fl_error:
  assumes "q \<noteq> 0" and "- 1022 \<le> binade q"
  shows "\<bar>fl q - q\<bar> \<le> 2 powi (binade q - 53)"
proof -
  define u :: rat where "u = 2 powi (binade q - 52)"
  have u0: "0 < u" by (simp add: u_def)
  have f: "fl q = of_int (round_half_even (q / u)) * u"
    using assms by (simp add: fl_def Let_def u_def max_def)
  have "fl q - q = (of_int (round_half_even (q / u)) - q / u) * u"
    using u0 by (simp add: f field_simps)
  then have "\<bar>fl q - q\<bar> = \<bar>of_int (round_half_even (q / u)) - q / u\<bar> * u"
    using u0 by (simp add: abs_mult)
  also have "\<dots> \<le> (1 / 2) * u"
    using u0 round_half_even_error [of "q / u"] by (intro mult_right_mono) simp_all
  also have "\<dots> = 2 powi (binade q - 53)"
    by (simp add: u_def power_int_diff)
  finally show ?thesis .
qed


lemma fl_div_10_floor:
  assumes "0 \<le> g" and "g < 2 ^ 53"
  shows "\<lfloor>fl (of_int g / 10)\<rfloor> = g div 10"
proof (cases "g mod 10 = 0")
  case True
  then have g: "g = 10 * (g div 10)" by auto
  have "(of_int g :: rat) / 10 = of_int (g div 10)"
    by (subst g) simp
  moreover have "\<bar>g div 10\<bar> < 2 ^ 53" using assms by simp
  ultimately show ?thesis by (simp add: fl_of_int)
next
  case False
  define n where "n = g div 10"
  define r where "r = g mod 10"
  define q :: rat where "q = of_int g / 10"
  have r: "1 \<le> r" "r \<le> 9" using False unfolding r_def by presburger+
  have g: "g = 10 * n + r" by (simp add: n_def r_def)
  have n0: "0 \<le> n" using assms(1) by (simp add: n_def)
  have qn: "q = of_int n + of_int r / 10" by (simp add: q_def g)
  have lo: "of_int n + 1 / 10 \<le> q" using r(1) by (simp add: qn)
  have hi: "q \<le> of_int n + 9 / 10" using r(2) by (simp add: qn)
  have qpos: "1 / 10 \<le> q" using lo n0 by simp
  have q0: "q \<noteq> 0" using qpos by simp
  have "(2::rat) powi (- 4) \<le> \<bar>q\<bar>" using qpos by (simp add: power_int_minus)
  then have b1: "- 4 \<le> binade q" using q0 by (intro binade_ge)
  have "q < 2 ^ 53 / 10" using assms(2) by (simp add: q_def)
  then have "\<bar>q\<bar> < 2 powi 50" using qpos by simp
  then have b2: "binade q < 50" using q0 by (intro binade_less)
  have "\<bar>fl q - q\<bar> \<le> 2 powi (binade q - 53)"
    using q0 b1 by (intro fl_error) simp_all
  also have "\<dots> \<le> 2 powi (- 4)"
    using b2 by (intro power_int_increasing) simp_all
  also have "\<dots> = 1 / 16" by (simp add: power_int_minus)
  finally have e: "\<bar>fl q - q\<bar> \<le> 1 / 16" .
  have "of_int n \<le> fl q" using e lo by linarith
  moreover have "fl q < of_int n + 1" using e hi by linarith
  ultimately have "\<lfloor>fl q\<rfloor> = n" by (intro floor_unique)
  then show ?thesis by (simp add: q_def n_def)
qed

section \<open>Coordinates in the 32-bit range\<close>

declare of_int_sint [simp del]

lemma sint_pixel_bounds: "- (2 ^ 31) \<le> sint (v :: pixel)" "sint (v :: pixel) < 2 ^ 31"
  using sint_ge [of v] sint_lt [of v] by simp_all

lemma float_of_int_exact: "\<bar>n\<bar> < 2 ^ 53 \<Longrightarrow> float_of_int n = of_int n"
  by (simp add: float_of_int_def fl_of_int)

lemma int_truediv_2_exact: "\<bar>n\<bar> < 2 ^ 53 \<Longrightarrow> int_truediv n 2 = of_int n / 2"
  by (simp add: int_truediv_def fl_half)

lemma float_mul_half_exact:
  "\<bar>n\<bar> < 2 ^ 53 \<Longrightarrow> float_mul (float_of_int n) (1 / 2) = of_int n / 2"
  by (simp add: float_mul_def float_of_int_exact fl_half)

lemma py_int_truediv_10:
  assumes "0 \<le> g" and "g < 2 ^ 53"
  shows "py_int (int_truediv g 10) = g div 10"
proof -
  have f: "\<lfloor>fl (of_int g / 10)\<rfloor> = g div 10"
    using assms by (rule fl_div_10_floor)
  have "0 \<le> g div 10" using assms(1) by simp
  then have "0 \<le> fl (of_int g / 10)"
    using f by (metis floor_less_zero leD not_le_imp_less)
  then show ?thesis using f by (simp add: py_int_def int_truediv_def)
qed

lemma get_cy_AxisAligned:
  "get_cy (AxisAligned x y w h) = of_int (sint y) + of_int (sint h) / 2"
proof -
  have y: "\<bar>sint y\<bar> < 2 ^ 53" and h: "\<bar>sint h\<bar> < 2 ^ 53"
    using sint_pixel_bounds [of y] sint_pixel_bounds [of h] by simp_all
  have s: "\<bar>2 * sint y + sint h\<bar> < 2 ^ 53"
    using sint_pixel_bounds [of y] sint_pixel_bounds [of h] by simp
  have e: "(of_int (sint y) :: rat) + of_int (sint h) / 2 = of_int (2 * sint y + sint h) / 2"
    by simp
  have "fl (of_int (sint y) + of_int (sint h) / 2) = of_int (sint y) + of_int (sint h) / 2"
    unfolding e by (rule fl_half [OF s])
  then show ?thesis
    by (simp add: float_add_def float_of_int_exact [OF y] int_truediv_2_exact [OF h])
qed

declare get_cy.simps(2) [simp del]

declare get_cy_AxisAligned [simp]

section \<open>Ranges and exact cases of the geometry\<close>


lemma py_min_Min: "vs \<noteq> [] \<Longrightarrow> py_min vs = Min (set vs)"
proof (cases vs)
  case Nil
  assume "vs \<noteq> []"
  with Nil show ?thesis by simp
next
  case (Cons v rest)
  then show ?thesis using Min.set_eq_fold [of v rest] by simp
qed

lemma py_max_Max: "vs \<noteq> [] \<Longrightarrow> py_max vs = Max (set vs)"
proof (cases vs)
  case Nil
  assume "vs \<noteq> []"
  with Nil show ?thesis by simp
next
  case (Cons v rest)
  then show ?thesis using Max.set_eq_fold [of v rest] by simp
qed

lemma py_min_range:
  assumes "\<forall>v \<in> set vs. lo \<le> v \<and> v \<le> hi" and "lo \<le> 0" and "0 \<le> hi"
  shows "lo \<le> py_min vs \<and> py_min vs \<le> hi"
proof (cases "vs = []")
  case True
  then show ?thesis using assms(2,3) by simp
next
  case False
  then have "py_min vs \<in> set vs" by (simp add: py_min_Min)
  then show ?thesis using assms(1) by blast
qed

lemma py_max_range:
  assumes "\<forall>v \<in> set vs. lo \<le> v \<and> v \<le> hi" and "lo \<le> 0" and "0 \<le> hi"
  shows "lo \<le> py_max vs \<and> py_max vs \<le> hi"
proof (cases "vs = []")
  case True
  then show ?thesis using assms(2,3) by simp
next
  case False
  then have "py_max vs \<in> set vs" by (simp add: py_max_Max)
  then show ?thesis using assms(1) by blast
qed

lemma sint_list_range:
  "\<forall>v \<in> set (map (\<lambda>p. sint (f p :: pixel)) ps). - (2 ^ 31) \<le> v \<and> v \<le> 2 ^ 31 - 1"
proof
  fix v
  assume "v \<in> set (map (\<lambda>p. sint (f p)) ps)"
  then obtain p where "v = sint (f p)" by auto
  then show "- (2 ^ 31) \<le> v \<and> v \<le> 2 ^ 31 - 1"
    using sint_pixel_bounds [of "f p"] by simp
qed

lemma get_x_bounds: "- (2 ^ 31) \<le> get_x b" "get_x b < 2 ^ 31"
proof -
  have "- (2 ^ 31) \<le> get_x b \<and> get_x b \<le> 2 ^ 31 - 1"
  proof (cases b)
    case (AxisAligned x y w h)
    then show ?thesis using sint_pixel_bounds [of x] by simp
  next
    case (Polygon ps)
    then show ?thesis
      using py_min_range [OF sint_list_range [of fst ps]] by simp
  qed
  then show "- (2 ^ 31) \<le> get_x b" "get_x b < 2 ^ 31" by simp_all
qed

lemma x_end_bounds: "- (2 ^ 32) \<le> x_end b" "x_end b < 2 ^ 32"
proof -
  have "- (2 ^ 32) \<le> x_end b \<and> x_end b < 2 ^ 32"
  proof (cases b)
    case (AxisAligned x y w h)
    then show ?thesis using sint_pixel_bounds [of x] sint_pixel_bounds [of w] by simp
  next
    case (Polygon ps)
    then show ?thesis
      using py_max_range [OF sint_list_range [of fst ps]] by simp
  qed
  then show "- (2 ^ 32) \<le> x_end b" "x_end b < 2 ^ 32" by simp_all
qed

lemma get_h_bound: "\<bar>get_h b\<bar> < 2 ^ 53"
proof (cases b)
  case (AxisAligned x y w h)
  then show ?thesis using sint_pixel_bounds [of h] by simp
next
  case (Polygon ps)
  define ys where "ys = map (\<lambda>p. sint (snd p)) ps"
  have "- (2 ^ 31) \<le> py_max ys \<and> py_max ys \<le> 2 ^ 31 - 1"
    unfolding ys_def by (rule py_max_range [OF sint_list_range]) simp_all
  moreover have "- (2 ^ 31) \<le> py_min ys \<and> py_min ys \<le> 2 ^ 31 - 1"
    unfolding ys_def by (rule py_min_range [OF sint_list_range]) simp_all
  ultimately have "\<bar>py_max ys - py_min ys\<bar> < 2 ^ 53" by (simp add: abs_less_iff)
  then show ?thesis using Polygon by (simp add: Let_def ys_def)
qed

lemma same_row_iff:
  "same_row p b \<longleftrightarrow>
   \<bar>float_sub (get_cy (bbox b)) (get_cy (bbox p))\<bar> < of_int (get_h (bbox p)) / 2"
  by (simp add: same_row_def Let_def float_mul_half_exact [OF get_h_bound])

lemma sum_list_sint_bound:
  "\<bar>sum_list (map (\<lambda>p. sint (f p :: pixel)) ps)\<bar> \<le> int (length ps) * 2 ^ 31"
proof (induction ps)
  case Nil
  show ?case by simp
next
  case (Cons p ps)
  have "\<bar>sint (f p)\<bar> \<le> 2 ^ 31"
    using sint_pixel_bounds [of "f p"] by (simp add: abs_le_iff)
  then show ?case using Cons.IH by (simp add: algebra_simps)
qed

lemma get_cy_spec:
  assumes "spec_box b"
  shows "get_cy b = spec_centerY b"
proof (cases b)
  case (AxisAligned x y w h)
  then show ?thesis by simp
next
  case (Polygon ps)
  then have l: "length ps = 4" using assms by simp
  define S where "S = sum_list (map (\<lambda>p. sint (snd p)) ps)"
  have "\<bar>S\<bar> \<le> 4 * 2 ^ 31"
    using sum_list_sint_bound [of snd ps] l by (simp add: S_def)
  then have "\<bar>S\<bar> < 2 ^ 53" by simp
  then have "fl (of_int S / 4) = of_int S / 4" by (rule fl_quarter)
  then show ?thesis using Polygon l by (simp add: int_truediv_def Let_def S_def)
qed

lemma spec_centerY_quarters:
  assumes "spec_box b"
  shows "\<exists>m. \<bar>m\<bar> < 2 ^ 40 \<and> spec_centerY b = of_int m / 4"
proof (cases b)
  case (AxisAligned x y w h)
  have "\<bar>4 * sint y + 2 * sint h\<bar> < 2 ^ 40"
    using sint_pixel_bounds [of y] sint_pixel_bounds [of h] by (simp add: abs_less_iff)
  moreover have "spec_centerY b = of_int (4 * sint y + 2 * sint h) / 4"
    using AxisAligned by simp
  ultimately show ?thesis by blast
next
  case (Polygon ps)
  then have l: "length ps = 4" using assms by simp
  define S where "S = sum_list (map (\<lambda>p. sint (snd p)) ps)"
  have "\<bar>S\<bar> \<le> 4 * 2 ^ 31"
    using sum_list_sint_bound [of snd ps] l by (simp add: S_def)
  then have "\<bar>S\<bar> < 2 ^ 40" by simp
  moreover have "spec_centerY b = of_int S / 4"
    using Polygon l by (simp add: S_def)
  ultimately show ?thesis by blast
qed

lemma float_sub_spec:
  assumes "spec_box a" and "spec_box b"
  shows "float_sub (spec_centerY b) (spec_centerY a) = spec_centerY b - spec_centerY a"
proof -
  obtain m where m: "\<bar>m\<bar> < 2 ^ 40" "spec_centerY a = of_int m / 4"
    using spec_centerY_quarters [OF assms(1)] by blast
  obtain n where n: "\<bar>n\<bar> < 2 ^ 40" "spec_centerY b = of_int n / 4"
    using spec_centerY_quarters [OF assms(2)] by blast
  have e: "spec_centerY b - spec_centerY a = of_int (n - m) / 4"
    by (simp add: m(2) n(2) diff_divide_distrib)
  have "\<bar>n - m\<bar> < 2 ^ 53" using m(1) n(1) by (simp add: abs_less_iff)
  then have "fl (of_int (n - m) / 4) = of_int (n - m) / 4" by (rule fl_quarter)
  then show ?thesis unfolding float_sub_def e .
qed

lemma same_row_spec:
  assumes "spec_box (bbox p)" and "spec_box (bbox b)"
  shows "same_row p b \<longleftrightarrow>
     \<bar>spec_centerY (bbox b) - spec_centerY (bbox p)\<bar> < (1 / 2) * of_int (get_h (bbox p))"
  by (simp add: same_row_iff get_cy_spec [OF assms(1)] get_cy_spec [OF assms(2)]
      float_sub_spec [OF assms])

lemma get_cy_four_points [simp]:
  "get_cy (Polygon [p1, p2, p3, p4]) =
     of_int (sint (snd p1) + sint (snd p2) + sint (snd p3) + sint (snd p4)) / 4"
  using get_cy_spec [of "Polygon [p1, p2, p3, p4]"] by (simp add: add.assoc)

declare get_cy.simps(1) [simp del]

section \<open>Row grouping\<close>


lemma group_loop_concat:
  "group_loop rows cur rest = (rows1, cur1) \<Longrightarrow>
   concat rows1 @ cur1 = concat rows @ cur @ rest"
  by (induction rest arbitrary: rows cur) (auto split: if_splits)

lemma group_loop_current_nonempty:
  "group_loop rows cur rest = (rows1, cur1) \<Longrightarrow> cur \<noteq> [] \<Longrightarrow> cur1 \<noteq> []"
  by (induction rest arbitrary: rows cur) (auto split: if_splits)

lemma group_loop_rows_nonempty:
  "group_loop rows cur rest = (rows1, cur1) \<Longrightarrow> cur \<noteq> [] \<Longrightarrow> [] \<notin> set rows
   \<Longrightarrow> [] \<notin> set rows1"
  by (induction rest arbitrary: rows cur) (auto split: if_splits)

lemma group_loop_chain:
  "group_loop rows cur rest = (rows1, cur1) \<Longrightarrow> cur \<noteq> [] \<Longrightarrow>
   list_all (successively same_row) (rows @ [cur]) \<Longrightarrow>
   list_all (successively same_row) (rows1 @ [cur1])"
proof (induction rest arbitrary: rows cur)
  case Nil
  then show ?case by simp
next
  case (Cons box rest)
  show ?case
  proof (cases "same_row (last cur) box")
    case True
    with Cons.prems have "group_loop rows (cur @ [box]) rest = (rows1, cur1)" by simp
    moreover have "list_all (successively same_row) (rows @ [cur @ [box]])"
      using Cons.prems True by (simp add: successively_append_iff)
    ultimately show ?thesis using Cons.IH by blast
  next
    case False
    with Cons.prems have "group_loop (rows @ [cur]) [box] rest = (rows1, cur1)" by simp
    moreover have "list_all (successively same_row) ((rows @ [cur]) @ [[box]])"
      using Cons.prems by simp
    ultimately show ?thesis using Cons.IH by blast
  qed
qed

lemma group_loop_breaks:
  "group_loop rows cur rest = (rows1, cur1) \<Longrightarrow> cur \<noteq> [] \<Longrightarrow>
   successively row_break (rows @ [cur]) \<Longrightarrow>
   successively row_break (rows1 @ [cur1])"
proof (induction rest arbitrary: rows cur)
  case Nil
  then show ?case by simp
next
  case (Cons box rest)
  show ?case
  proof (cases "same_row (last cur) box")
    case True
    with Cons.prems have "group_loop rows (cur @ [box]) rest = (rows1, cur1)" by simp
    moreover have "successively row_break (rows @ [cur @ [box]])"
      using Cons.prems by (auto simp add: successively_append_iff row_break_def)
    ultimately show ?thesis using Cons.IH by blast
  next
    case False
    with Cons.prems have "group_loop (rows @ [cur]) [box] rest = (rows1, cur1)" by simp
    moreover have "successively row_break ((rows @ [cur]) @ [[box]])"
      using Cons.prems False by (simp add: successively_append_iff row_break_def)
    ultimately show ?thesis using Cons.IH by blast
  qed
qed

lemma group_rows_concat: "concat (group_rows ls) = ls"
proof (cases ls)
  case Nil
  then show ?thesis by (simp add: group_rows_def)
next
  case (Cons l0 rest)
  obtain rows cur where g: "group_loop [] [l0] rest = (rows, cur)" by force
  have "cur \<noteq> []" using group_loop_current_nonempty[OF g] by simp
  moreover have "concat rows @ cur = l0 # rest"
    using group_loop_concat[OF g] by simp
  ultimately show ?thesis using Cons g by (simp add: group_rows_def)
qed

lemma group_rows_nonempty: "[] \<notin> set (group_rows ls)"
proof (cases ls)
  case Nil
  then show ?thesis by (simp add: group_rows_def)
next
  case (Cons l0 rest)
  obtain rows cur where g: "group_loop [] [l0] rest = (rows, cur)" by force
  have "cur \<noteq> []" using group_loop_current_nonempty[OF g] by simp
  moreover have "[] \<notin> set rows"
    using group_loop_rows_nonempty[OF g] by simp
  ultimately show ?thesis using Cons g by (auto simp add: group_rows_def)
qed

lemma group_rows_chain: "list_all (successively same_row) (group_rows ls)"
proof (cases ls)
  case Nil
  then show ?thesis by (simp add: group_rows_def)
next
  case (Cons l0 rest)
  obtain rows cur where g: "group_loop [] [l0] rest = (rows, cur)" by force
  have "cur \<noteq> []" using group_loop_current_nonempty[OF g] by simp
  moreover have "list_all (successively same_row) (rows @ [cur])"
    using group_loop_chain[OF g] by simp
  ultimately show ?thesis using Cons g by (simp add: group_rows_def)
qed

lemma group_rows_breaks: "successively row_break (group_rows ls)"
proof (cases ls)
  case Nil
  then show ?thesis by (simp add: group_rows_def)
next
  case (Cons l0 rest)
  obtain rows cur where g: "group_loop [] [l0] rest = (rows, cur)" by force
  have "cur \<noteq> []" using group_loop_current_nonempty[OF g] by simp
  moreover have "successively row_break (rows @ [cur])"
    using group_loop_breaks[OF g] by simp
  ultimately show ?thesis using Cons g by (simp add: group_rows_def)
qed


lemma reconstruct_layout_sorted:
  "reconstruct_layout lines = Inr (out, lines1) \<Longrightarrow> lines1 = sort_key (\<lambda>l. get_cy (bbox l)) lines"
  by (auto simp: reconstruct_layout_def Let_def split: if_splits)

lemma reconstruct_layout_out:
  "reconstruct_layout lines = Inr (out, lines1) \<Longrightarrow> out = join_lines (map row_line (group_rows lines1))"
  by (auto simp: reconstruct_layout_def Let_def group_rows_def split: if_splits)

lemma reconstruct_layout_returns:
  assumes "\<not> list_ex (\<lambda>l. bbox l = Polygon []) lines"
  shows "\<exists>out. reconstruct_layout lines = Inr (out, sort_key (\<lambda>l. get_cy (bbox l)) lines)"
  using assms by (cases "lines = []") (simp_all add: reconstruct_layout_def Let_def)

lemma same_row_test:
  "same_row p b \<longleftrightarrow>
   \<bar>float_sub (get_cy (bbox b)) (get_cy (bbox p))\<bar>
            < float_mul (float_of_int (get_h (bbox p))) (1 / 2)"
  by (simp add: same_row_def Let_def)

lemma example_rows:
  "group_rows [\<lparr>text' = ta, confidence = ca, bbox = AxisAligned 0 0 50 20\<rparr>,
               \<lparr>text' = tb, confidence = cb, bbox = AxisAligned 60 8 50 20\<rparr>]
     = [[\<lparr>text' = ta, confidence = ca, bbox = AxisAligned 0 0 50 20\<rparr>,
         \<lparr>text' = tb, confidence = cb, bbox = AxisAligned 60 8 50 20\<rparr>]]"
  by (simp add: group_rows_def same_row_spec)

lemma example_layout:
  "layout_text [\<lparr>text' = ta, confidence = ca, bbox = AxisAligned 0 0 50 20\<rparr>,
               \<lparr>text' = tb, confidence = cb, bbox = AxisAligned 60 8 50 20\<rparr>]
     = Inr (ta @ '' '' @ tb)"
  by (simp add: layout_text_def reconstruct_layout_def group_rows_def same_row_spec row_line_def
      py_int_truediv_10 spaces_str_def)

lemma example_layout_rev:
  "layout_text [\<lparr>text' = tb, confidence = cb, bbox = AxisAligned 60 8 50 20\<rparr>,
               \<lparr>text' = ta, confidence = ca, bbox = AxisAligned 0 0 50 20\<rparr>]
     = Inr (ta @ '' '' @ tb)"
  by (simp add: layout_text_def reconstruct_layout_def group_rows_def same_row_spec row_line_def
      py_int_truediv_10 spaces_str_def)

text \<open>
  Claim C1.  Whenever \<open>reconstruct_layout\<close> returns, the list it works on is the
  input sorted by centerY, and the rows it builds are the one cutting of that
  sorted list into non-empty consecutive pieces in which every fragment after
  the first of a row passes the test \<open>y_diff < h * 0.5\<close> against its
  predecessor and every first fragment of a later row fails it against the
  last fragment of the row before: a fragment is appended to the current row
  exactly when the test holds, otherwise it opens a new row.  The test is the
  one the code evaluates, in double precision, on the centres it has computed
  in double precision.  On the boxes of the specification (axis-aligned or
  four points) with integer coordinates nothing is rounded: the computed
  centre is the exact centerY, \<open>h * 0.5\<close> is half the height, and the test is
  \<open>|centerY(current) - centerY(previous)| < 0.5 * height(previous)\<close> in exact
  arithmetic.  Fragment A with box \<open>[0,0,50,20]\<close> and fragment B with box
  \<open>[60,8,50,20]\<close> form one row, and the text is A, one space, B, in either
  input order.
\<close>

theorem row_grouping_by_half_height:
  fixes p b :: "pixel fragment"
  shows
  "(reconstruct_layout lines = Inr (out, lines1) \<longrightarrow>
      lines1 = sort_key (\<lambda>l. get_cy (bbox l)) lines \<and>
      concat (group_rows lines1) = lines1 \<and>
      [] \<notin> set (group_rows lines1) \<and>
      list_all (successively (\<lambda>p b.
          \<bar>float_sub (get_cy (bbox b)) (get_cy (bbox p))\<bar>
            < float_mul (float_of_int (get_h (bbox p))) (1 / 2)))
        (group_rows lines1) \<and>
      successively (\<lambda>r1 r2.
          \<not> \<bar>float_sub (get_cy (bbox (hd r2))) (get_cy (bbox (last r1)))\<bar>
              < float_mul (float_of_int (get_h (bbox (last r1)))) (1 / 2))
        (group_rows lines1) \<and>
      out = join_lines (map row_line (group_rows lines1)))
   \<and> (spec_box (bbox p) \<and> spec_box (bbox b) \<longrightarrow>
      get_cy (bbox p) = spec_centerY (bbox p) \<and> get_cy (bbox b) = spec_centerY (bbox b) \<and>
      float_mul (float_of_int (get_h (bbox p))) (1 / 2) = (1 / 2) * of_int (get_h (bbox p)) \<and>
      (\<bar>float_sub (get_cy (bbox b)) (get_cy (bbox p))\<bar>
            < float_mul (float_of_int (get_h (bbox p))) (1 / 2)
        \<longleftrightarrow> \<bar>spec_centerY (bbox b) - spec_centerY (bbox p)\<bar>
              < (1 / 2) * of_int (get_h (bbox p))))
   \<and> group_rows [\<lparr>text' = ta, confidence = ca, bbox = AxisAligned 0 0 50 20\<rparr>,
               \<lparr>text' = tb, confidence = cb, bbox = AxisAligned 60 8 50 20\<rparr>]
     = [[\<lparr>text' = ta, confidence = ca, bbox = AxisAligned 0 0 50 20\<rparr>,
         \<lparr>text' = tb, confidence = cb, bbox = AxisAligned 60 8 50 20\<rparr>]]
   \<and> layout_text [\<lparr>text' = ta, confidence = ca, bbox = AxisAligned 0 0 50 20\<rparr>,
               \<lparr>text' = tb, confidence = cb, bbox = AxisAligned 60 8 50 20\<rparr>]
     = Inr (ta @ '' '' @ tb)
   \<and> layout_text [\<lparr>text' = tb, confidence = cb, bbox = AxisAligned 60 8 50 20\<rparr>,
               \<lparr>text' = ta, confidence = ca, bbox = AxisAligned 0 0 50 20\<rparr>]
     = Inr (ta @ '' '' @ tb)"
proof -
  have chain: "list_all (successively (\<lambda>p b.
          \<bar>float_sub (get_cy (bbox b)) (get_cy (bbox p))\<bar>
            < float_mul (float_of_int (get_h (bbox p))) (1 / 2))) (group_rows ls)" for ls
    using group_rows_chain [of ls] by (simp add: same_row_test [abs_def])
  have brk: "successively (\<lambda>r1 r2.
          \<not> \<bar>float_sub (get_cy (bbox (hd r2))) (get_cy (bbox (last r1)))\<bar>
              < float_mul (float_of_int (get_h (bbox (last r1)))) (1 / 2))
        (group_rows ls)" for ls
    using group_rows_breaks [of ls] by (simp add: row_break_def [abs_def] same_row_test)
  have general: "reconstruct_layout lines = Inr (out, lines1) \<longrightarrow>
      lines1 = sort_key (\<lambda>l. get_cy (bbox l)) lines \<and>
      concat (group_rows lines1) = lines1 \<and>
      [] \<notin> set (group_rows lines1) \<and>
      list_all (successively (\<lambda>p b.
          \<bar>float_sub (get_cy (bbox b)) (get_cy (bbox p))\<bar>
            < float_mul (float_of_int (get_h (bbox p))) (1 / 2)))
        (group_rows lines1) \<and>
      successively (\<lambda>r1 r2.
          \<not> \<bar>float_sub (get_cy (bbox (hd r2))) (get_cy (bbox (last r1)))\<bar>
              < float_mul (float_of_int (get_h (bbox (last r1)))) (1 / 2))
        (group_rows lines1) \<and>
      out = join_lines (map row_line (group_rows lines1))"
  proof
    assume r: "reconstruct_layout lines = Inr (out, lines1)"
    show "lines1 = sort_key (\<lambda>l. get_cy (bbox l)) lines \<and>
      concat (group_rows lines1) = lines1 \<and>
      [] \<notin> set (group_rows lines1) \<and>
      list_all (successively (\<lambda>p b.
          \<bar>float_sub (get_cy (bbox b)) (get_cy (bbox p))\<bar>
            < float_mul (float_of_int (get_h (bbox p))) (1 / 2)))
        (group_rows lines1) \<and>
      successively (\<lambda>r1 r2.
          \<not> \<bar>float_sub (get_cy (bbox (hd r2))) (get_cy (bbox (last r1)))\<bar>
              < float_mul (float_of_int (get_h (bbox (last r1)))) (1 / 2))
        (group_rows lines1) \<and>
      out = join_lines (map row_line (group_rows lines1))"
      using reconstruct_layout_sorted [OF r] reconstruct_layout_out [OF r]
        group_rows_concat [of lines1] group_rows_nonempty [of lines1] chain [of lines1]
        brk [of lines1]
      by (intro conjI)
  qed
  have exact: "spec_box (bbox p) \<and> spec_box (bbox b) \<longrightarrow>
      get_cy (bbox p) = spec_centerY (bbox p) \<and> get_cy (bbox b) = spec_centerY (bbox b) \<and>
      float_mul (float_of_int (get_h (bbox p))) (1 / 2) = (1 / 2) * of_int (get_h (bbox p)) \<and>
      (\<bar>float_sub (get_cy (bbox b)) (get_cy (bbox p))\<bar>
            < float_mul (float_of_int (get_h (bbox p))) (1 / 2)
        \<longleftrightarrow> \<bar>spec_centerY (bbox b) - spec_centerY (bbox p)\<bar>
              < (1 / 2) * of_int (get_h (bbox p)))"
  proof
    assume s: "spec_box (bbox p) \<and> spec_box (bbox b)"
    then have sp: "spec_box (bbox p)" and sb: "spec_box (bbox b)" by simp_all
    have h: "float_mul (float_of_int (get_h (bbox p))) (1 / 2) = (1 / 2) * of_int (get_h (bbox p))"
      by (simp add: float_mul_half_exact [OF get_h_bound])
    have t: "\<bar>float_sub (get_cy (bbox b)) (get_cy (bbox p))\<bar>
            < float_mul (float_of_int (get_h (bbox p))) (1 / 2)
        \<longleftrightarrow> \<bar>spec_centerY (bbox b) - spec_centerY (bbox p)\<bar>
              < (1 / 2) * of_int (get_h (bbox p))"
      using same_row_spec [OF sp sb] by (simp only: same_row_test)
    from get_cy_spec [OF sp] get_cy_spec [OF sb] h t
    show "get_cy (bbox p) = spec_centerY (bbox p) \<and> get_cy (bbox b) = spec_centerY (bbox b) \<and>
      float_mul (float_of_int (get_h (bbox p))) (1 / 2) = (1 / 2) * of_int (get_h (bbox p)) \<and>
      (\<bar>float_sub (get_cy (bbox b)) (get_cy (bbox p))\<bar>
            < float_mul (float_of_int (get_h (bbox p))) (1 / 2)
        \<longleftrightarrow> \<bar>spec_centerY (bbox b) - spec_centerY (bbox p)\<bar>
              < (1 / 2) * of_int (get_h (bbox p)))"
      by (intro conjI)
  qed
  from general exact example_rows [of ta ca tb cb] example_layout [of ta ca tb cb]
    example_layout_rev [of tb cb ta ca]
  show ?thesis by (intro conjI)
qed

theorem row_grouping_by_half_height_witness:
  "reconstruct_layout
     [\<lparr>text' = ''b'', confidence = 1, bbox = Polygon [(20, 0), (30, 5), (20, 6)]\<rparr>,
      \<lparr>text' = ''a'', confidence = 1, bbox = Polygon [(0, 0), (10, 1), (0, 4)]\<rparr>,
      \<lparr>text' = ''C'', confidence = 1, bbox = AxisAligned 0 30 50 20\<rparr>]
   = Inr (''a b'' @ [CHR 0x0A] @ ''C'',
     [\<lparr>text' = ''a'', confidence = 1, bbox = Polygon [(0, 0), (10, 1), (0, 4)]\<rparr>,
      \<lparr>text' = ''b'', confidence = 1, bbox = Polygon [(20, 0), (30, 5), (20, 6)]\<rparr>,
      \<lparr>text' = ''C'', confidence = 1, bbox = AxisAligned 0 30 50 20\<rparr>])
   \<and> group_rows
     [\<lparr>text' = ''a'', confidence = 1, bbox = Polygon [(0, 0), (10, 1), (0, 4)]\<rparr>,
      \<lparr>text' = ''b'', confidence = 1, bbox = Polygon [(20, 0), (30, 5), (20, 6)]\<rparr>,
      \<lparr>text' = ''C'', confidence = 1, bbox = AxisAligned 0 30 50 20\<rparr>]
   = [[\<lparr>text' = ''a'', confidence = 1, bbox = Polygon [(0, 0), (10, 1), (0, 4)]\<rparr>,
       \<lparr>text' = ''b'', confidence = 1, bbox = Polygon [(20, 0), (30, 5), (20, 6)]\<rparr>],
      [\<lparr>text' = ''C'', confidence = 1, bbox = AxisAligned 0 30 50 20\<rparr>]]
   \<and> successively (\<lambda>r1 r2.
          \<not> \<bar>float_sub (get_cy (bbox (hd r2))) (get_cy (bbox (last r1)))\<bar>
              < float_mul (float_of_int (get_h (bbox (last r1)))) (1 / 2))
     [[\<lparr>text' = ''a'', confidence = 1, bbox = Polygon [(0, 0), (10, 1), (0, 4)]\<rparr>,
       \<lparr>text' = ''b'', confidence = 1, bbox = Polygon [(20, 0), (30, 5), (20, 6)]\<rparr>],
      [\<lparr>text' = ''C'', confidence = 1, bbox = AxisAligned 0 30 50 20\<rparr>]]
   \<and> spec_box (bbox \<lparr>text' = ''A'', confidence = 1, bbox = AxisAligned 0 0 50 20\<rparr>) \<and> spec_box (bbox \<lparr>text' = ''B'', confidence = 1, bbox = Polygon [(60, 8), (110, 8), (110, 28), (60, 28)]\<rparr>)
   \<and> get_cy (bbox \<lparr>text' = ''B'', confidence = 1, bbox = Polygon [(60, 8), (110, 8), (110, 28), (60, 28)]\<rparr>) = 18
   \<and> (\<bar>float_sub (get_cy (bbox \<lparr>text' = ''B'', confidence = 1, bbox = Polygon [(60, 8), (110, 8), (110, 28), (60, 28)]\<rparr>)) (get_cy (bbox \<lparr>text' = ''A'', confidence = 1, bbox = AxisAligned 0 0 50 20\<rparr>))\<bar>
            < float_mul (float_of_int (get_h (bbox \<lparr>text' = ''A'', confidence = 1, bbox = AxisAligned 0 0 50 20\<rparr>))) (1 / 2)
        \<longleftrightarrow> \<bar>spec_centerY (bbox \<lparr>text' = ''B'', confidence = 1, bbox = Polygon [(60, 8), (110, 8), (110, 28), (60, 28)]\<rparr>) - spec_centerY (bbox \<lparr>text' = ''A'', confidence = 1, bbox = AxisAligned 0 0 50 20\<rparr>)\<bar>
              < (1 / 2) * of_int (get_h (bbox \<lparr>text' = ''A'', confidence = 1, bbox = AxisAligned 0 0 50 20\<rparr>)))"
proof -
  have k1: "get_cy (Polygon [(0, 0), (10, 1), (0, 4)]) = 7505999378950827 / 4503599627370496"
    by code_simp
  have k2: "get_cy (Polygon [(20, 0), (30, 5), (20, 6)]) = 8256599316845909 / 2251799813685248"
    by code_simp
  have s1: "same_row \<lparr>text' = ''a'', confidence = 1, bbox = Polygon [(0, 0), (10, 1), (0, 4)]\<rparr>
      \<lparr>text' = ''b'', confidence = 1, bbox = Polygon [(20, 0), (30, 5), (20, 6)]\<rparr>"
    by code_simp
  have s2: "\<not> same_row \<lparr>text' = ''b'', confidence = 1, bbox = Polygon [(20, 0), (30, 5), (20, 6)]\<rparr>
      \<lparr>text' = ''C'', confidence = 1, bbox = AxisAligned 0 30 50 20\<rparr>"
    by code_simp
  have g: "group_rows
     [\<lparr>text' = ''a'', confidence = 1, bbox = Polygon [(0, 0), (10, 1), (0, 4)]\<rparr>,
      \<lparr>text' = ''b'', confidence = 1, bbox = Polygon [(20, 0), (30, 5), (20, 6)]\<rparr>,
      \<lparr>text' = ''C'', confidence = 1, bbox = AxisAligned 0 30 50 20\<rparr>]
   = [[\<lparr>text' = ''a'', confidence = 1, bbox = Polygon [(0, 0), (10, 1), (0, 4)]\<rparr>,
       \<lparr>text' = ''b'', confidence = 1, bbox = Polygon [(20, 0), (30, 5), (20, 6)]\<rparr>],
      [\<lparr>text' = ''C'', confidence = 1, bbox = AxisAligned 0 30 50 20\<rparr>]]"
    by (simp add: group_rows_def s1 s2)
  have r: "reconstruct_layout
     [\<lparr>text' = ''b'', confidence = 1, bbox = Polygon [(20, 0), (30, 5), (20, 6)]\<rparr>,
      \<lparr>text' = ''a'', confidence = 1, bbox = Polygon [(0, 0), (10, 1), (0, 4)]\<rparr>,
      \<lparr>text' = ''C'', confidence = 1, bbox = AxisAligned 0 30 50 20\<rparr>]
   = Inr (''a b'' @ [CHR 0x0A] @ ''C'',
     [\<lparr>text' = ''a'', confidence = 1, bbox = Polygon [(0, 0), (10, 1), (0, 4)]\<rparr>,
      \<lparr>text' = ''b'', confidence = 1, bbox = Polygon [(20, 0), (30, 5), (20, 6)]\<rparr>,
      \<lparr>text' = ''C'', confidence = 1, bbox = AxisAligned 0 30 50 20\<rparr>])"
    by (simp add: reconstruct_layout_def k1 k2 g row_line_def py_int_truediv_10 spaces_str_def)
  note t = row_grouping_by_half_height [where lines = "[\<lparr>text' = ''b'', confidence = 1, bbox = Polygon [(20, 0), (30, 5), (20, 6)]\<rparr>,
      \<lparr>text' = ''a'', confidence = 1, bbox = Polygon [(0, 0), (10, 1), (0, 4)]\<rparr>,
      \<lparr>text' = ''C'', confidence = 1, bbox = AxisAligned 0 30 50 20\<rparr>]"
      and out = "''a b'' @ [CHR 0x0A] @ ''C''"
      and ?lines1.0 = "[\<lparr>text' = ''a'', confidence = 1, bbox = Polygon [(0, 0), (10, 1), (0, 4)]\<rparr>,
      \<lparr>text' = ''b'', confidence = 1, bbox = Polygon [(20, 0), (30, 5), (20, 6)]\<rparr>,
      \<lparr>text' = ''C'', confidence = 1, bbox = AxisAligned 0 30 50 20\<rparr>]"
      and p = "\<lparr>text' = ''A'', confidence = 1, bbox = AxisAligned 0 0 50 20\<rparr>"
      and b = "\<lparr>text' = ''B'', confidence = 1, bbox = Polygon [(60, 8), (110, 8), (110, 28), (60, 28)]\<rparr>"
      and ta = "''A''" and ca = 1 and tb = "''B''" and cb = 1]
  from t r g have b: "successively (\<lambda>r1 r2.
          \<not> \<bar>float_sub (get_cy (bbox (hd r2))) (get_cy (bbox (last r1)))\<bar>
              < float_mul (float_of_int (get_h (bbox (last r1)))) (1 / 2))
     [[\<lparr>text' = ''a'', confidence = 1, bbox = Polygon [(0, 0), (10, 1), (0, 4)]\<rparr>,
       \<lparr>text' = ''b'', confidence = 1, bbox = Polygon [(20, 0), (30, 5), (20, 6)]\<rparr>],
      [\<lparr>text' = ''C'', confidence = 1, bbox = AxisAligned 0 30 50 20\<rparr>]]"
    by simp
  have s: "spec_box (bbox \<lparr>text' = ''A'', confidence = 1, bbox = AxisAligned 0 0 50 20\<rparr>) \<and> spec_box (bbox \<lparr>text' = ''B'', confidence = 1, bbox = Polygon [(60, 8), (110, 8), (110, 28), (60, 28)]\<rparr>)"
    by simp
  have c: "get_cy (bbox \<lparr>text' = ''B'', confidence = 1, bbox = Polygon [(60, 8), (110, 8), (110, 28), (60, 28)]\<rparr>) = 18"
    using t s by simp
  have e: "\<bar>float_sub (get_cy (bbox \<lparr>text' = ''B'', confidence = 1, bbox = Polygon [(60, 8), (110, 8), (110, 28), (60, 28)]\<rparr>)) (get_cy (bbox \<lparr>text' = ''A'', confidence = 1, bbox = AxisAligned 0 0 50 20\<rparr>))\<bar>
            < float_mul (float_of_int (get_h (bbox \<lparr>text' = ''A'', confidence = 1, bbox = AxisAligned 0 0 50 20\<rparr>))) (1 / 2)
        \<longleftrightarrow> \<bar>spec_centerY (bbox \<lparr>text' = ''B'', confidence = 1, bbox = Polygon [(60, 8), (110, 8), (110, 28), (60, 28)]\<rparr>) - spec_centerY (bbox \<lparr>text' = ''A'', confidence = 1, bbox = AxisAligned 0 0 50 20\<rparr>)\<bar>
              < (1 / 2) * of_int (get_h (bbox \<lparr>text' = ''A'', confidence = 1, bbox = AxisAligned 0 0 50 20\<rparr>))"
    using t s by blast
  from s have s1: "spec_box (bbox \<lparr>text' = ''A'', confidence = 1, bbox = AxisAligned 0 0 50 20\<rparr>)"
    and s2: "spec_box (bbox \<lparr>text' = ''B'', confidence = 1, bbox = Polygon [(60, 8), (110, 8), (110, 28), (60, 28)]\<rparr>)"
    by simp_all
  from r g b s1 s2 c e show ?thesis by (intro conjI)
qed

section \<open>Line building\<close>

lemma floor_int_div_10: "\<lfloor>(of_int g :: rat) / 10\<rfloor> = g div 10"
  using floor_divide_of_int_eq [of g 10, where ?'a = rat] by simp

lemma floor_rat_numeral:
  "\<lfloor>(numeral a :: rat) / numeral b\<rfloor> = numeral a div numeral b"
  using floor_divide_of_int_eq [of "numeral a" "numeral b", where ?'a = rat] by simp

lemma line_loop_closed:
  assumes "- (2 ^ 32) \<le> e"
  shows "line_loop acc e items =
     acc @ concat (map2 (\<lambda>previousRightX item.
         replicate
           (if 0 < previousRightX
            then nat \<lfloor>(of_int (max 0 (get_x (bbox item) - previousRightX)) :: rat) / 10\<rfloor> else 0)
           CHR '' '' @ text' item)
       (e # map (\<lambda>l. x_end (bbox l)) items) items)"
  using assms
proof (induction items arbitrary: acc e)
  case Nil
  show ?case by simp
next
  case (Cons item rest)
  define g where "g = max 0 (get_x (bbox item) - e)"
  have "0 \<le> g" by (simp add: g_def)
  moreover have "g < 2 ^ 53"
    using Cons.prems get_x_bounds(2) [of "bbox item"] by (simp add: g_def)
  ultimately have "py_int (int_truediv g 10) = \<lfloor>(of_int g :: rat) / 10\<rfloor>"
    by (simp add: py_int_truediv_10 floor_int_div_10)
  then show ?case
    using Cons.IH [OF x_end_bounds(1) [of "bbox item"]]
    by (simp add: Let_def spaces_str_def g_def)
qed

lemma row_line_closed:
  "row_line row =
     concat (map2 (\<lambda>previousRightX item.
         replicate
           (if 0 < previousRightX
            then nat \<lfloor>(of_int (max 0 (get_x (bbox item) - previousRightX)) :: rat) / 10\<rfloor> else 0)
           CHR '' '' @ text' item)
       (0 # map (\<lambda>l. x_end (bbox l)) (sort_key (\<lambda>l. get_x (bbox l)) row))
       (sort_key (\<lambda>l. get_x (bbox l)) row))"
  unfolding row_line_def by (subst line_loop_closed) simp_all

lemma row_line_single: "row_line [a] = text' a"
  by (simp add: row_line_def)

lemma row_line_gap_25:
  assumes "0 < x_end (bbox a)" and "get_x (bbox b) - x_end (bbox a) = 25"
    and "get_x (bbox a) \<le> get_x (bbox b)"
  shows "row_line [a, b] = text' a @ ''  '' @ text' b"
proof -
  have "sort_key (\<lambda>l. get_x (bbox l)) [a, b] = [a, b]"
    using assms(3) by simp
  then show ?thesis
    using assms(1,2) by (simp add: row_line_closed floor_int_div_10 numeral_2_eq_2)
qed

lemma row_line_no_gap:
  assumes "x_end (bbox a) \<le> 0" and "get_x (bbox a) \<le> get_x (bbox b)"
  shows "row_line [a, b] = text' a @ text' b"
proof -
  have "sort_key (\<lambda>l. get_x (bbox l)) [a, b] = [a, b]"
    using assms(2) by simp
  then show ?thesis
    using assms(1) by (simp add: row_line_closed)
qed

lemma join_lines_Cons2: "join_lines (l1 # l2 # ls) = l1 @ [CHR 0x0A] @ join_lines (l2 # ls)"
  by simp

text \<open>
  The counterexample to claim C2 as stated: fragment a with box \<open>[0,0,0,20]\<close>
  and fragment b with box \<open>[25,0,10,20]\<close> lie in one row, a first, with a
  horizontal gap of exactly 25 between them, and the text is \<open>ab\<close>, without a
  space: the right edge of a is 0, and the gap is computed only after a right
  edge greater than 0.  The same happens after box \<open>[-60,0,50,20]\<close>, whose
  right edge is \<open>-10\<close>.
\<close>

theorem row_line_gap_counterexample:
  "group_rows [\<lparr>text' = ''a'', confidence = 1, bbox = AxisAligned 0 0 0 20\<rparr>,
               \<lparr>text' = ''b'', confidence = 1, bbox = AxisAligned 25 0 10 20\<rparr>]
     = [[\<lparr>text' = ''a'', confidence = 1, bbox = AxisAligned 0 0 0 20\<rparr>,
         \<lparr>text' = ''b'', confidence = 1, bbox = AxisAligned 25 0 10 20\<rparr>]]
   \<and> get_x (bbox \<lparr>text' = ''b'', confidence = 1, bbox = AxisAligned 25 0 10 20\<rparr>)
       - x_end (bbox \<lparr>text' = ''a'', confidence = 1, bbox = AxisAligned 0 0 0 20\<rparr>) = 25
   \<and> layout_text [\<lparr>text' = ''a'', confidence = 1, bbox = AxisAligned 0 0 0 20\<rparr>,
                  \<lparr>text' = ''b'', confidence = 1, bbox = AxisAligned 25 0 10 20\<rparr>] = Inr ''ab''
   \<and> layout_text [\<lparr>text' = ''a'', confidence = 1, bbox = AxisAligned 0 0 0 20\<rparr>,
                  \<lparr>text' = ''b'', confidence = 1, bbox = AxisAligned 25 0 10 20\<rparr>] \<noteq> Inr ''a  b''
   \<and> get_x (bbox \<lparr>text' = ''b'', confidence = 1, bbox = AxisAligned 15 0 10 20\<rparr>)
       - x_end (bbox \<lparr>text' = ''a'', confidence = 1, bbox = AxisAligned (- 60) 0 50 20\<rparr>) = 25
   \<and> layout_text [\<lparr>text' = ''a'', confidence = 1, bbox = AxisAligned (- 60) 0 50 20\<rparr>,
                  \<lparr>text' = ''b'', confidence = 1, bbox = AxisAligned 15 0 10 20\<rparr>] = Inr ''ab''"
  by (simp add: layout_text_def reconstruct_layout_def group_rows_def same_row_spec row_line_def)

text \<open>
  Claim C2, as amended.  The claim excepts only the first fragment of a row
  from the gap; the code computes the gap only when \<open>previousRightX > 0\<close>, so
  a fragment that follows one whose right edge is not positive gets no spaces
  either (the counterexample above).  What holds, on integer coordinates: the
  line of a row is built from its members sorted by leftX ascending (a stable
  sort of the same members); before each member's text come
  \<open>floor(max(0, leftX(current) - previousRightX) / 10)\<close> spaces when
  \<open>previousRightX > 0\<close> and none otherwise, where \<open>previousRightX\<close> starts at 0
  and is then the right edge of the member before.  So the first member has no
  spaces in front, a gap of exactly 25 after a member with a positive right
  edge gives exactly two spaces, and after a member whose right edge is not
  positive there are none.  The returned text is the row lines joined with
  single newlines, in the order of the rows.
\<close>

theorem row_line_gap_spaces:
  "row_line row =
     concat (map2 (\<lambda>previousRightX item.
         replicate
           (if 0 < previousRightX
            then nat \<lfloor>(of_int (max 0 (get_x (bbox item) - previousRightX)) :: rat) / 10\<rfloor> else 0)
           CHR '' '' @ text' item)
       (0 # map (\<lambda>l. x_end (bbox l)) (sort_key (\<lambda>l. get_x (bbox l)) row))
       (sort_key (\<lambda>l. get_x (bbox l)) row))
   \<and> sorted (map (\<lambda>l. get_x (bbox l)) (sort_key (\<lambda>l. get_x (bbox l)) row))
   \<and> mset (sort_key (\<lambda>l. get_x (bbox l)) row) = mset row
   \<and> row_line [a] = text' a
   \<and> (0 < x_end (bbox a) \<and> get_x (bbox a) \<le> get_x (bbox b)
        \<and> get_x (bbox b) - x_end (bbox a) = 25
      \<longrightarrow> row_line [a, b] = text' a @ ''  '' @ text' b)
   \<and> (x_end (bbox a) \<le> 0 \<and> get_x (bbox a) \<le> get_x (bbox b)
      \<longrightarrow> row_line [a, b] = text' a @ text' b)
   \<and> (reconstruct_layout lines = Inr (out, lines1)
      \<longrightarrow> out = join_lines (map row_line (group_rows lines1)))
   \<and> join_lines [l1] = l1
   \<and> join_lines (l1 # l2 # ls) = l1 @ [CHR 0x0A] @ join_lines (l2 # ls)"
proof -
  have gap: "0 < x_end (bbox a) \<and> get_x (bbox a) \<le> get_x (bbox b)
        \<and> get_x (bbox b) - x_end (bbox a) = 25
      \<longrightarrow> row_line [a, b] = text' a @ ''  '' @ text' b"
    using row_line_gap_25 [of a b] by blast
  have nogap: "x_end (bbox a) \<le> 0 \<and> get_x (bbox a) \<le> get_x (bbox b)
      \<longrightarrow> row_line [a, b] = text' a @ text' b"
    using row_line_no_gap [of a b] by blast
  have out: "reconstruct_layout lines = Inr (out, lines1)
      \<longrightarrow> out = join_lines (map row_line (group_rows lines1))"
    using reconstruct_layout_out by blast
  have srt: "sorted (map (\<lambda>l. get_x (bbox l)) (sort_key (\<lambda>l. get_x (bbox l)) row))"
    by simp
  have ms: "mset (sort_key (\<lambda>l. get_x (bbox l)) row) = mset row"
    by simp
  have j1: "join_lines [l1] = l1" by simp
  from row_line_closed [of row] srt ms row_line_single [of a] gap nogap out j1
    join_lines_Cons2 [of l1 l2 ls]
  show ?thesis by (intro conjI)
qed

theorem row_line_gap_spaces_witness:
  "0 < x_end (AxisAligned 0 0 50 20)
   \<and> get_x (AxisAligned 0 0 50 20) \<le> get_x (AxisAligned 75 0 30 20)
   \<and> get_x (AxisAligned 75 0 30 20) - x_end (AxisAligned 0 0 50 20) = 25
   \<and> row_line [\<lparr>text' = ''ab'', confidence = 1, bbox = AxisAligned 0 0 50 20\<rparr>,
                \<lparr>text' = ''cd'', confidence = 1, bbox = AxisAligned 75 0 30 20\<rparr>] = ''ab  cd''
   \<and> x_end (AxisAligned (- 60) 0 50 20) \<le> 0
   \<and> row_line [\<lparr>text' = ''gh'', confidence = 1, bbox = AxisAligned (- 60) 0 50 20\<rparr>,
                \<lparr>text' = ''cd'', confidence = 1, bbox = AxisAligned 75 0 30 20\<rparr>] = ''ghcd''
   \<and> reconstruct_layout
       [\<lparr>text' = ''ef'', confidence = 1, bbox = AxisAligned 0 40 50 20\<rparr>,
        \<lparr>text' = ''cd'', confidence = 1, bbox = AxisAligned 75 0 30 20\<rparr>,
        \<lparr>text' = ''ab'', confidence = 1, bbox = AxisAligned 0 0 50 20\<rparr>]
     = Inr (''ab  cd'' @ [CHR 0x0A] @ ''ef'',
       [\<lparr>text' = ''cd'', confidence = 1, bbox = AxisAligned 75 0 30 20\<rparr>,
        \<lparr>text' = ''ab'', confidence = 1, bbox = AxisAligned 0 0 50 20\<rparr>,
        \<lparr>text' = ''ef'', confidence = 1, bbox = AxisAligned 0 40 50 20\<rparr>])"
proof -
  have r: "reconstruct_layout
       [\<lparr>text' = ''ef'', confidence = 1, bbox = AxisAligned 0 40 50 20\<rparr>,
        \<lparr>text' = ''cd'', confidence = 1, bbox = AxisAligned 75 0 30 20\<rparr>,
        \<lparr>text' = ''ab'', confidence = 1, bbox = AxisAligned 0 0 50 20\<rparr>]
     = Inr (''ab  cd'' @ [CHR 0x0A] @ ''ef'',
       [\<lparr>text' = ''cd'', confidence = 1, bbox = AxisAligned 75 0 30 20\<rparr>,
        \<lparr>text' = ''ab'', confidence = 1, bbox = AxisAligned 0 0 50 20\<rparr>,
        \<lparr>text' = ''ef'', confidence = 1, bbox = AxisAligned 0 40 50 20\<rparr>])"
    by (simp add: reconstruct_layout_def group_rows_def same_row_spec row_line_def
        py_int_truediv_10 spaces_str_def numeral_2_eq_2)
  have a: "0 < x_end (AxisAligned 0 0 50 20)
   \<and> get_x (AxisAligned 0 0 50 20) \<le> get_x (AxisAligned 75 0 30 20)
   \<and> get_x (AxisAligned 75 0 30 20) - x_end (AxisAligned 0 0 50 20) = 25
   \<and> row_line [\<lparr>text' = ''ab'', confidence = 1, bbox = AxisAligned 0 0 50 20\<rparr>,
                \<lparr>text' = ''cd'', confidence = 1, bbox = AxisAligned 75 0 30 20\<rparr>] = ''ab  cd''"
    using row_line_gap_spaces [where row = "[\<lparr>text' = ''ab'', confidence = 1, bbox = AxisAligned 0 0 50 20\<rparr>,
        \<lparr>text' = ''cd'', confidence = 1, bbox = AxisAligned 75 0 30 20\<rparr>]"
      and a = "\<lparr>text' = ''ab'', confidence = 1, bbox = AxisAligned 0 0 50 20\<rparr>"
      and b = "\<lparr>text' = ''cd'', confidence = 1, bbox = AxisAligned 75 0 30 20\<rparr>"
      and lines = "[\<lparr>text' = ''ef'', confidence = 1, bbox = AxisAligned 0 40 50 20\<rparr>,
        \<lparr>text' = ''cd'', confidence = 1, bbox = AxisAligned 75 0 30 20\<rparr>,
        \<lparr>text' = ''ab'', confidence = 1, bbox = AxisAligned 0 0 50 20\<rparr>]"
      and out = "''ab  cd'' @ [CHR 0x0A] @ ''ef''"
      and ?lines1.0 = "[\<lparr>text' = ''cd'', confidence = 1, bbox = AxisAligned 75 0 30 20\<rparr>,
        \<lparr>text' = ''ab'', confidence = 1, bbox = AxisAligned 0 0 50 20\<rparr>,
        \<lparr>text' = ''ef'', confidence = 1, bbox = AxisAligned 0 40 50 20\<rparr>]"
      and ?l1.0 = "''x''" and ?l2.0 = "''y''" and ls = "[]"]
    by (simp add: floor_rat_numeral numeral_2_eq_2)
  have z: "x_end (AxisAligned (- 60) 0 50 20) \<le> 0
   \<and> row_line [\<lparr>text' = ''gh'', confidence = 1, bbox = AxisAligned (- 60) 0 50 20\<rparr>,
                \<lparr>text' = ''cd'', confidence = 1, bbox = AxisAligned 75 0 30 20\<rparr>] = ''ghcd''"
    using row_line_gap_spaces [where row = "[\<lparr>text' = ''gh'', confidence = 1, bbox = AxisAligned (- 60) 0 50 20\<rparr>,
        \<lparr>text' = ''cd'', confidence = 1, bbox = AxisAligned 75 0 30 20\<rparr>]"
      and a = "\<lparr>text' = ''gh'', confidence = 1, bbox = AxisAligned (- 60) 0 50 20\<rparr>"
      and b = "\<lparr>text' = ''cd'', confidence = 1, bbox = AxisAligned 75 0 30 20\<rparr>"
      and lines = "[\<lparr>text' = ''ef'', confidence = 1, bbox = AxisAligned 0 40 50 20\<rparr>,
        \<lparr>text' = ''cd'', confidence = 1, bbox = AxisAligned 75 0 30 20\<rparr>,
        \<lparr>text' = ''ab'', confidence = 1, bbox = AxisAligned 0 0 50 20\<rparr>]"
      and out = "''ab  cd'' @ [CHR 0x0A] @ ''ef''"
      and ?lines1.0 = "[\<lparr>text' = ''cd'', confidence = 1, bbox = AxisAligned 75 0 30 20\<rparr>,
        \<lparr>text' = ''ab'', confidence = 1, bbox = AxisAligned 0 0 50 20\<rparr>,
        \<lparr>text' = ''ef'', confidence = 1, bbox = AxisAligned 0 40 50 20\<rparr>]"
      and ?l1.0 = "''x''" and ?l2.0 = "''y''" and ls = "[]"]
    by (simp add: floor_rat_numeral numeral_2_eq_2)
  from a z r show ?thesis by simp
qed

section \<open>Order of the input\<close>

lemma reconstruct_layout_perm:
  assumes "mset lines' = mset lines"
    and "inj_on (\<lambda>l. get_cy (bbox l)) (set lines)"
  shows "reconstruct_layout lines' = reconstruct_layout lines"
proof -
  have s: "set lines' = set lines"
    using assms(1) by (rule mset_eq_setD)
  have e: "lines' = [] \<longleftrightarrow> lines = []"
    using assms(1) by (metis mset_zero_iff)
  have i: "inj_on (\<lambda>l. get_cy (bbox l)) (set lines')"
    using assms(2) s by simp
  have srt: "sort_key (\<lambda>l. get_cy (bbox l)) lines' = sort_key (\<lambda>l. get_cy (bbox l)) lines"
    using assms(1) i by (rule sort_key_eq_sort_key)
  have ex: "list_ex (\<lambda>l. bbox l = Polygon []) lines' = list_ex (\<lambda>l. bbox l = Polygon []) lines"
    using s by (simp add: list_ex_iff)
  show ?thesis
  proof (cases "lines = []")
    case True
    then have "lines' = []" using e by simp
    with True show ?thesis by simp
  next
    case False
    then have "lines' \<noteq> []" using e by simp
    with False show ?thesis
      unfolding reconstruct_layout_def srt ex by simp
  qed
qed

text \<open>
  The counterexample to claim C3 as stated: fragments a (box \<open>[0,8,10,4]\<close>) and
  b (box \<open>[20,0,10,20]\<close>) have centerY 10, fragment c (box \<open>[40,5,10,20]\<close>) has
  centerY 15.  In the order a, b, c the three form one row; in the order
  b, a, c the row is closed after a, whose half height is 2, and c starts a
  second row.
\<close>

theorem layout_permutation_counterexample:
  "mset ([\<lparr>text' = ''b'', confidence = 1, bbox = AxisAligned 20 0 10 20\<rparr>,
                  \<lparr>text' = ''a'', confidence = 1, bbox = AxisAligned 0 8 10 4\<rparr>,
                  \<lparr>text' = ''c'', confidence = 1, bbox = AxisAligned 40 5 10 20\<rparr>] :: pixel fragment list)
   = mset [\<lparr>text' = ''a'', confidence = 1, bbox = AxisAligned 0 8 10 4\<rparr>,
                  \<lparr>text' = ''b'', confidence = 1, bbox = AxisAligned 20 0 10 20\<rparr>,
                  \<lparr>text' = ''c'', confidence = 1, bbox = AxisAligned 40 5 10 20\<rparr>]
   \<and> layout_text [\<lparr>text' = ''a'', confidence = 1, bbox = AxisAligned 0 8 10 4\<rparr>,
                  \<lparr>text' = ''b'', confidence = 1, bbox = AxisAligned 20 0 10 20\<rparr>,
                  \<lparr>text' = ''c'', confidence = 1, bbox = AxisAligned 40 5 10 20\<rparr>]
     = Inr ''a b c''
   \<and> layout_text [\<lparr>text' = ''b'', confidence = 1, bbox = AxisAligned 20 0 10 20\<rparr>,
                  \<lparr>text' = ''a'', confidence = 1, bbox = AxisAligned 0 8 10 4\<rparr>,
                  \<lparr>text' = ''c'', confidence = 1, bbox = AxisAligned 40 5 10 20\<rparr>]
     = Inr (''a b'' @ [CHR 0x0A] @ ''c'')
   \<and> layout_text [\<lparr>text' = ''b'', confidence = 1, bbox = AxisAligned 20 0 10 20\<rparr>,
                  \<lparr>text' = ''a'', confidence = 1, bbox = AxisAligned 0 8 10 4\<rparr>,
                  \<lparr>text' = ''c'', confidence = 1, bbox = AxisAligned 40 5 10 20\<rparr>]
     \<noteq> layout_text [\<lparr>text' = ''a'', confidence = 1, bbox = AxisAligned 0 8 10 4\<rparr>,
                  \<lparr>text' = ''b'', confidence = 1, bbox = AxisAligned 20 0 10 20\<rparr>,
                  \<lparr>text' = ''c'', confidence = 1, bbox = AxisAligned 40 5 10 20\<rparr>]"
proof -
  have m: "mset ([\<lparr>text' = ''b'', confidence = 1, bbox = AxisAligned 20 0 10 20\<rparr>,
                  \<lparr>text' = ''a'', confidence = 1, bbox = AxisAligned 0 8 10 4\<rparr>,
                  \<lparr>text' = ''c'', confidence = 1, bbox = AxisAligned 40 5 10 20\<rparr>] :: pixel fragment list)
   = mset [\<lparr>text' = ''a'', confidence = 1, bbox = AxisAligned 0 8 10 4\<rparr>,
                  \<lparr>text' = ''b'', confidence = 1, bbox = AxisAligned 20 0 10 20\<rparr>,
                  \<lparr>text' = ''c'', confidence = 1, bbox = AxisAligned 40 5 10 20\<rparr>]"
    by simp
  have abc: "layout_text [\<lparr>text' = ''a'', confidence = 1, bbox = AxisAligned 0 8 10 4\<rparr>,
                  \<lparr>text' = ''b'', confidence = 1, bbox = AxisAligned 20 0 10 20\<rparr>,
                  \<lparr>text' = ''c'', confidence = 1, bbox = AxisAligned 40 5 10 20\<rparr>]
     = Inr ''a b c''"
    by (simp add: layout_text_def reconstruct_layout_def group_rows_def same_row_spec row_line_def
      py_int_truediv_10 spaces_str_def)
  have bac: "layout_text [\<lparr>text' = ''b'', confidence = 1, bbox = AxisAligned 20 0 10 20\<rparr>,
                  \<lparr>text' = ''a'', confidence = 1, bbox = AxisAligned 0 8 10 4\<rparr>,
                  \<lparr>text' = ''c'', confidence = 1, bbox = AxisAligned 40 5 10 20\<rparr>]
     = Inr (''a b'' @ [CHR 0x0A] @ ''c'')"
    by (simp add: layout_text_def reconstruct_layout_def group_rows_def same_row_spec row_line_def
      py_int_truediv_10 spaces_str_def)
  have ne: "layout_text [\<lparr>text' = ''b'', confidence = 1, bbox = AxisAligned 20 0 10 20\<rparr>,
                  \<lparr>text' = ''a'', confidence = 1, bbox = AxisAligned 0 8 10 4\<rparr>,
                  \<lparr>text' = ''c'', confidence = 1, bbox = AxisAligned 40 5 10 20\<rparr>]
     \<noteq> layout_text [\<lparr>text' = ''a'', confidence = 1, bbox = AxisAligned 0 8 10 4\<rparr>,
                  \<lparr>text' = ''b'', confidence = 1, bbox = AxisAligned 20 0 10 20\<rparr>,
                  \<lparr>text' = ''c'', confidence = 1, bbox = AxisAligned 40 5 10 20\<rparr>]"
    unfolding abc bac by simp
  from m abc bac ne show ?thesis by (intro conjI)
qed

text \<open>
  Claim C3, as amended.  The claim says that every permutation of the input
  gives the same string.  It fails when fragments share a centerY: the sort is
  stable, so their input order is kept, and the chain test of the grouping
  depends on which of them comes first (the counterexample above: a small mark
  on the line of a tall word).  What holds, on integer coordinates: when no
  two different fragments of the list have the same centerY, as the code
  computes it, every permutation of the list gives the same result, string
  and sorted list.  On the boxes of the specification (axis-aligned or four
  points) the computed centerY is the exact one.
\<close>

theorem layout_permutation_distinct_centerY:
  "mset lines' = mset lines \<Longrightarrow> inj_on (\<lambda>l. get_cy (bbox l)) (set lines) \<Longrightarrow>
   layout_text lines' = layout_text lines \<and> reconstruct_layout lines' = reconstruct_layout lines
   \<and> (\<forall>l \<in> set lines. spec_box (bbox l) \<longrightarrow> get_cy (bbox l) = spec_centerY (bbox l))"
  using reconstruct_layout_perm [of lines' lines] by (simp add: layout_text_def get_cy_spec)

theorem layout_permutation_distinct_centerY_witness:
  "mset ([\<lparr>text' = ''B'', confidence = 1, bbox = AxisAligned 60 8 50 20\<rparr>,
         \<lparr>text' = ''A'', confidence = 1, bbox = AxisAligned 0 0 50 20\<rparr>] :: pixel fragment list)
   = mset [\<lparr>text' = ''A'', confidence = 1, bbox = AxisAligned 0 0 50 20\<rparr>,
           \<lparr>text' = ''B'', confidence = 1, bbox = AxisAligned 60 8 50 20\<rparr>]
   \<and> inj_on (\<lambda>l. get_cy (bbox l))
        (set [\<lparr>text' = ''A'', confidence = 1, bbox = AxisAligned 0 0 50 20\<rparr>,
              \<lparr>text' = ''B'', confidence = 1, bbox = AxisAligned 60 8 50 20\<rparr>])
   \<and> layout_text [\<lparr>text' = ''B'', confidence = 1, bbox = AxisAligned 60 8 50 20\<rparr>,
                  \<lparr>text' = ''A'', confidence = 1, bbox = AxisAligned 0 0 50 20\<rparr>]
     = layout_text [\<lparr>text' = ''A'', confidence = 1, bbox = AxisAligned 0 0 50 20\<rparr>,
                    \<lparr>text' = ''B'', confidence = 1, bbox = AxisAligned 60 8 50 20\<rparr>]
   \<and> get_cy (bbox \<lparr>text' = ''B'', confidence = 1, bbox = AxisAligned 60 8 50 20\<rparr>) = 18"
proof -
  have m: "mset ([\<lparr>text' = ''B'', confidence = 1, bbox = AxisAligned 60 8 50 20\<rparr>,
         \<lparr>text' = ''A'', confidence = 1, bbox = AxisAligned 0 0 50 20\<rparr>] :: pixel fragment list)
   = mset [\<lparr>text' = ''A'', confidence = 1, bbox = AxisAligned 0 0 50 20\<rparr>,
           \<lparr>text' = ''B'', confidence = 1, bbox = AxisAligned 60 8 50 20\<rparr>]"
    by simp
  have i: "inj_on (\<lambda>l. get_cy (bbox l))
        (set [\<lparr>text' = ''A'', confidence = 1, bbox = AxisAligned 0 0 50 20\<rparr>,
              \<lparr>text' = ''B'', confidence = 1, bbox = AxisAligned 60 8 50 20\<rparr>])"
    by simp
  note t = layout_permutation_distinct_centerY [OF m i]
  from t have e: "layout_text [\<lparr>text' = ''B'', confidence = 1, bbox = AxisAligned 60 8 50 20\<rparr>,
                  \<lparr>text' = ''A'', confidence = 1, bbox = AxisAligned 0 0 50 20\<rparr>]
     = layout_text [\<lparr>text' = ''A'', confidence = 1, bbox = AxisAligned 0 0 50 20\<rparr>,
                    \<lparr>text' = ''B'', confidence = 1, bbox = AxisAligned 60 8 50 20\<rparr>]"
    by (rule conjunct1)
  from t have k: "get_cy (bbox \<lparr>text' = ''B'', confidence = 1, bbox = AxisAligned 60 8 50 20\<rparr>) = 18"
    by simp
  from m i e k show ?thesis by (intro conjI)
qed

section \<open>Geometry on both box shapes\<close>

lemma sum_list_map_mset_cong:
  assumes "mset xs = mset ys"
  shows "sum_list (map f xs) = (sum_list (map f ys) :: int)"
proof -
  have "sum_list (map f xs) = sum_mset (image_mset f (mset xs))"
    by (simp only: sum_mset_sum_list [symmetric] mset_map)
  also have "\<dots> = sum_mset (image_mset f (mset ys))"
    by (simp only: assms)
  also have "\<dots> = sum_list (map f ys)"
    by (simp only: sum_mset_sum_list [symmetric] mset_map)
  finally show ?thesis .
qed

lemma corners_facts:
  fixes x y xr yb :: pixel
  assumes "mset ps = mset [(x, y), (xr, y), (xr, yb), (x, yb)]"
  shows "ps \<noteq> []" and "length ps = 4"
    and "set (map (\<lambda>p. sint (fst p)) ps) = {sint x, sint xr}"
    and "set (map (\<lambda>p. sint (snd p)) ps) = {sint y, sint yb}"
    and "sum_list (map (\<lambda>p. sint (snd p)) ps) = 2 * sint y + 2 * sint yb"
proof -
  show len: "length ps = 4"
    using mset_eq_length [OF assms] by simp
  show "ps \<noteq> []" using len by auto
  have s: "set ps = {(x, y), (xr, y), (xr, yb), (x, yb)}"
    using mset_eq_setD [OF assms] by simp
  show "set (map (\<lambda>p. sint (fst p)) ps) = {sint x, sint xr}" unfolding set_map s by auto
  show "set (map (\<lambda>p. sint (snd p)) ps) = {sint y, sint yb}" unfolding set_map s by auto
  show "sum_list (map (\<lambda>p. sint (snd p)) ps) = 2 * sint y + 2 * sint yb"
    unfolding sum_list_map_mset_cong [OF assms, of "\<lambda>p. sint (snd p)"] by simp
qed

lemma polygon_get_cy:
  fixes x y w h xr yb :: pixel
  assumes "sint yb = sint y + sint h"
    and "mset ps = mset [(x, y), (xr, y), (xr, yb), (x, yb)]"
  shows "get_cy (Polygon ps) = of_int (sint y) + of_int (sint h) / 2"
proof -
  have "spec_box (Polygon ps)" using corners_facts(2) [OF assms(2)] by simp
  then have "get_cy (Polygon ps) = spec_centerY (Polygon ps)" by (rule get_cy_spec)
  also have "\<dots> = of_int (2 * sint y + 2 * sint yb) / 4"
    using corners_facts(2,5) [OF assms(2)] by simp
  also have "\<dots> = of_int (sint y) + of_int (sint h) / 2"
    by (simp add: assms(1))
  finally show ?thesis .
qed

lemma polygon_get_x:
  fixes x y w xr yb :: pixel
  assumes "0 \<le> sint w" and "sint xr = sint x + sint w"
    and "mset ps = mset [(x, y), (xr, y), (xr, yb), (x, yb)]"
  shows "get_x (Polygon ps) = sint x"
proof -
  have "map (\<lambda>p. sint (fst p)) ps \<noteq> []" using corners_facts(1) [OF assms(3)] by simp
  then have "get_x (Polygon ps) = Min {sint x, sint xr}"
    using corners_facts(3) [OF assms(3)] by (simp add: py_min_Min)
  also have "\<dots> = sint x" using assms(1,2) by (simp add: min_def)
  finally show ?thesis .
qed

lemma polygon_get_h:
  fixes x y h xr yb :: pixel
  assumes "0 \<le> sint h" and "sint yb = sint y + sint h"
    and "mset ps = mset [(x, y), (xr, y), (xr, yb), (x, yb)]"
  shows "get_h (Polygon ps) = sint h"
proof -
  have ne: "map (\<lambda>p. sint (snd p)) ps \<noteq> []" using corners_facts(1) [OF assms(3)] by simp
  have "get_h (Polygon ps) = Max {sint y, sint yb} - Min {sint y, sint yb}"
    using corners_facts(4) [OF assms(3)] ne by (simp add: py_min_Min py_max_Max Let_def)
  also have "\<dots> = sint h" using assms(1,2) by (simp add: min_def max_def)
  finally show ?thesis .
qed

text \<open>
  The counterexample to claim C4 as stated: the box \<open>[0, 0, -10, 20]\<close> and
  its four corners \<open>[0,0]\<close>, \<open>[-10,0]\<close>, \<open>[-10,20]\<close>, \<open>[0,20]\<close>: leftX is
  \<open>x = 0\<close> on the box and \<open>x + w = -10\<close> on the corners.  In the same way the
  box \<open>[0, 0, 10, -20]\<close> has height \<open>-20\<close> and its corners have height 20.
\<close>

theorem accessors_negative_extent_counterexample:
  "get_x (AxisAligned 0 0 (- 10) 20) = 0
   \<and> get_x (Polygon [(0, 0), (0 + (- 10), 0), (0 + (- 10), 0 + 20), (0, 0 + 20)]) = - 10
   \<and> get_x (Polygon [(0, 0), (0 + (- 10), 0), (0 + (- 10), 0 + 20), (0, 0 + 20)])
       \<noteq> get_x (AxisAligned 0 0 (- 10) 20)
   \<and> get_h (AxisAligned 0 0 10 (- 20)) = - 20
   \<and> get_h (Polygon [(0, 0), (0 + 10, 0), (0 + 10, 0 + (- 20)), (0, 0 + (- 20))]) = 20
   \<and> get_h (Polygon [(0, 0), (0 + 10, 0), (0 + 10, 0 + (- 20)), (0, 0 + (- 20))])
       \<noteq> get_h (AxisAligned 0 0 10 (- 20))"
  by simp

text \<open>
  Claim C4, as amended.  The claim speaks of every axis-aligned box; with a
  negative width or height the minimum and the difference of the corners are
  not \<open>x\<close> and \<open>h\<close> (the counterexample above).  What holds: let
  \<open>[x, y, w, h]\<close> be an axis-aligned box with integer coordinates and
  extents \<open>w\<close> and \<open>h\<close> that are not negative, and let \<open>ps\<close> be the four
  corners \<open>[x,y]\<close>, \<open>[x+w,y]\<close>, \<open>[x+w,y+h]\<close>, \<open>[x,y+h]\<close> of the same
  rectangle in any order (\<open>xr\<close> and \<open>yb\<close> are \<open>x+w\<close> and \<open>y+h\<close>, in the
  32-bit range like every coordinate).  Then the accessors of
  \<open>reconstruct_layout\<close> give the same numbers on both representations, with
  no rounding: centerY is \<open>y + h/2\<close>, leftX is \<open>x\<close>, height is \<open>h\<close>.
\<close>

theorem accessors_agree_on_both_shapes:
  fixes x y w h xr yb :: pixel
  shows
  "0 \<le> sint w \<Longrightarrow> 0 \<le> sint h \<Longrightarrow>
   sint xr = sint x + sint w \<Longrightarrow> sint yb = sint y + sint h \<Longrightarrow>
   mset ps = mset [(x, y), (xr, y), (xr, yb), (x, yb)] \<Longrightarrow>
   get_cy (Polygon ps) = of_int (sint y) + of_int (sint h) / 2 \<and>
   get_cy (AxisAligned x y w h) = of_int (sint y) + of_int (sint h) / 2 \<and>
   get_x (Polygon ps) = sint x \<and> get_x (AxisAligned x y w h) = sint x \<and>
   get_h (Polygon ps) = sint h \<and> get_h (AxisAligned x y w h) = sint h"
  using polygon_get_cy [of yb y h ps x xr] polygon_get_x [of w xr x ps y yb]
    polygon_get_h [of h yb y ps x xr]
  by simp

theorem accessors_agree_on_both_shapes_witness:
  "0 \<le> sint (30 :: pixel) \<and> 0 \<le> sint (40 :: pixel) \<and>
   sint (40 :: pixel) = sint (10 :: pixel) + sint (30 :: pixel) \<and>
   sint (60 :: pixel) = sint (20 :: pixel) + sint (40 :: pixel) \<and>
   mset [(40, 60), (10, 20), (10, 60), (40, 20)]
     = mset [(10, 20), (40, 20), (40, 60), (10 :: pixel, 60 :: pixel)] \<and>
   get_cy (Polygon [(40, 60), (10, 20), (10, 60), (40, 20)]) = 40 \<and>
   get_cy (AxisAligned 10 20 30 40) = 40 \<and>
   get_x (Polygon [(40, 60), (10, 20), (10, 60), (40, 20)]) = 10 \<and>
   get_x (AxisAligned 10 20 30 40) = 10 \<and>
   get_h (Polygon [(40, 60), (10, 20), (10, 60), (40, 20)]) = 40 \<and>
   get_h (AxisAligned 10 20 30 40) = 40"
proof -
  have w: "0 \<le> sint (30 :: pixel)" and h: "0 \<le> sint (40 :: pixel)" by simp_all
  have xr: "sint (40 :: pixel) = sint (10 :: pixel) + sint (30 :: pixel)"
    and yb: "sint (60 :: pixel) = sint (20 :: pixel) + sint (40 :: pixel)" by simp_all
  have m: "mset [(40, 60), (10, 20), (10, 60), (40, 20)]
     = mset [(10, 20), (40, 20), (40, 60), (10 :: pixel, 60 :: pixel)]"
    by simp
  from accessors_agree_on_both_shapes [OF w h xr yb m] w h xr yb m
  show ?thesis by simp
qed

section \<open>The caller's list\<close>

text \<open>
  Claim C10.  \<open>reconstruct_layout\<close> sorts the caller's list in place.  When
  the call returns, the caller's list holds the same fragments, each with its
  text, confidence and bbox as before (the same multiset of fragment values),
  in ascending order of the centerY that the code computes, and fragments with
  equal centerY are in their original relative order.  On the boxes of the
  specification (axis-aligned or four points) with integer coordinates the
  computed centerY is the exact one.  The call does return on every non-empty
  list that has no empty bbox, and then leaves the stable sort of the input.
\<close>

theorem caller_list_sorted_in_place:
  "(reconstruct_layout lines = Inr (out, lines1) \<longrightarrow>
      mset lines1 = mset lines \<and>
      sorted (map (\<lambda>l. get_cy (bbox l)) lines1) \<and>
      (\<forall>k. filter (\<lambda>l. get_cy (bbox l) = k) lines1 = filter (\<lambda>l. get_cy (bbox l) = k) lines))
   \<and> (lines \<noteq> [] \<and> \<not> list_ex (\<lambda>l. bbox l = Polygon []) lines \<longrightarrow>
      (\<exists>out'. reconstruct_layout lines = Inr (out', sort_key (\<lambda>l. get_cy (bbox l)) lines)))
   \<and> (spec_box box \<longrightarrow> get_cy box = spec_centerY box)"
proof (intro conjI impI)
  assume r: "reconstruct_layout lines = Inr (out, lines1)"
  have l1: "lines1 = sort_key (\<lambda>l. get_cy (bbox l)) lines"
    using reconstruct_layout_sorted [OF r] .
  show "mset lines1 = mset lines" unfolding l1 by simp
  show "sorted (map (\<lambda>l. get_cy (bbox l)) lines1)" unfolding l1 by simp
  show "\<forall>k. filter (\<lambda>l. get_cy (bbox l) = k) lines1 = filter (\<lambda>l. get_cy (bbox l) = k) lines"
    unfolding l1 by (simp add: sort_key_stable)
next
  assume "lines \<noteq> [] \<and> \<not> list_ex (\<lambda>l. bbox l = Polygon []) lines"
  then show "\<exists>out'. reconstruct_layout lines = Inr (out', sort_key (\<lambda>l. get_cy (bbox l)) lines)"
    using reconstruct_layout_returns [of lines] by blast
next
  assume "spec_box box"
  then show "get_cy box = spec_centerY box" by (rule get_cy_spec)
qed

theorem caller_list_sorted_in_place_witness:
  "reconstruct_layout
     [\<lparr>text' = ''B'', confidence = 1, bbox = AxisAligned 60 8 50 20\<rparr>,
      \<lparr>text' = ''C'', confidence = 1, bbox = AxisAligned 120 0 50 20\<rparr>,
      \<lparr>text' = ''A'', confidence = 1, bbox = AxisAligned 0 0 50 20\<rparr>]
   = Inr (''A B C'',
     [\<lparr>text' = ''C'', confidence = 1, bbox = AxisAligned 120 0 50 20\<rparr>,
      \<lparr>text' = ''A'', confidence = 1, bbox = AxisAligned 0 0 50 20\<rparr>,
      \<lparr>text' = ''B'', confidence = 1, bbox = AxisAligned 60 8 50 20\<rparr>])
   \<and> sorted (map (\<lambda>l. get_cy (bbox l))
     [\<lparr>text' = ''C'', confidence = 1, bbox = AxisAligned 120 0 50 20\<rparr>,
      \<lparr>text' = ''A'', confidence = 1, bbox = AxisAligned 0 0 50 20\<rparr>,
      \<lparr>text' = ''B'', confidence = 1, bbox = AxisAligned 60 8 50 20\<rparr>])
   \<and> filter (\<lambda>l. get_cy (bbox l) = 10)
     [\<lparr>text' = ''C'', confidence = 1, bbox = AxisAligned 120 0 50 20\<rparr>,
      \<lparr>text' = ''A'', confidence = 1, bbox = AxisAligned 0 0 50 20\<rparr>,
      \<lparr>text' = ''B'', confidence = 1, bbox = AxisAligned 60 8 50 20\<rparr>]
     = filter (\<lambda>l. get_cy (bbox l) = 10)
     [\<lparr>text' = ''B'', confidence = 1, bbox = AxisAligned 60 8 50 20\<rparr>,
      \<lparr>text' = ''C'', confidence = 1, bbox = AxisAligned 120 0 50 20\<rparr>,
      \<lparr>text' = ''A'', confidence = 1, bbox = AxisAligned 0 0 50 20\<rparr>]
   \<and> get_cy (AxisAligned 60 8 50 20) = 18"
proof -
  have r: "reconstruct_layout
     [\<lparr>text' = ''B'', confidence = 1, bbox = AxisAligned 60 8 50 20\<rparr>,
      \<lparr>text' = ''C'', confidence = 1, bbox = AxisAligned 120 0 50 20\<rparr>,
      \<lparr>text' = ''A'', confidence = 1, bbox = AxisAligned 0 0 50 20\<rparr>]
   = Inr (''A B C'',
     [\<lparr>text' = ''C'', confidence = 1, bbox = AxisAligned 120 0 50 20\<rparr>,
      \<lparr>text' = ''A'', confidence = 1, bbox = AxisAligned 0 0 50 20\<rparr>,
      \<lparr>text' = ''B'', confidence = 1, bbox = AxisAligned 60 8 50 20\<rparr>])"
    by (simp add: reconstruct_layout_def group_rows_def same_row_spec row_line_def
        py_int_truediv_10 spaces_str_def)
  from caller_list_sorted_in_place [of
     "[\<lparr>text' = ''B'', confidence = 1, bbox = AxisAligned 60 8 50 20\<rparr>,
      \<lparr>text' = ''C'', confidence = 1, bbox = AxisAligned 120 0 50 20\<rparr>,
      \<lparr>text' = ''A'', confidence = 1, bbox = AxisAligned 0 0 50 20\<rparr>]"
     "''A B C''"
     "[\<lparr>text' = ''C'', confidence = 1, bbox = AxisAligned 120 0 50 20\<rparr>,
      \<lparr>text' = ''A'', confidence = 1, bbox = AxisAligned 0 0 50 20\<rparr>,
      \<lparr>text' = ''B'', confidence = 1, bbox = AxisAligned 60 8 50 20\<rparr>]" "AxisAligned 60 8 50 20"] r
  show ?thesis by simp
qed

section \<open>Cropping\<close>

lemma py_slice_take_drop:
  "0 \<le> a \<Longrightarrow> 0 \<le> n \<Longrightarrow> py_slice xs a (a + n) = take (nat n) (drop (nat a) xs)"
  by (simp add: py_slice_def nat_add_distrib)

lemma shape_width_nonneg: "0 \<le> shape_width img"
  by (simp add: shape_width_def split: list.splits)

lemma shape_height_nonneg: "0 \<le> shape_height img"
  by (simp add: shape_height_def)

lemma crop_eq:
  "crop img x y w h =
     (if max 0 (min w (shape_width img - max 0 (min x (shape_width img)))) = 0
         \<or> max 0 (min h (shape_height img - max 0 (min y (shape_height img)))) = 0
      then img
      else map (\<lambda>row. take (nat (max 0 (min w (shape_width img - max 0 (min x (shape_width img))))))
                       (drop (nat (max 0 (min x (shape_width img)))) row))
             (take (nat (max 0 (min h (shape_height img - max 0 (min y (shape_height img))))))
                (drop (nat (max 0 (min y (shape_height img)))) img)))"
  by (simp add: crop_def Let_def py_slice_take_drop)

lemma crop_full_100:
  assumes "length img = 100" and "list_all (\<lambda>row. length row = 100) img"
  shows "crop img (- 5) (- 5) 10000 10000 = img"
proof -
  have ne: "img \<noteq> []" using assms(1) by auto
  then obtain r rest where c: "img = r # rest" by (cases img) auto
  have "length r = 100" using assms(2) c by simp
  then have W: "shape_width img = 100" using c by (simp add: shape_width_def)
  have H: "shape_height img = 100" using assms(1) by (simp add: shape_height_def)
  have rows: "map (\<lambda>row. take 100 (drop 0 row)) img = img"
    using assms(2) by (induction img) simp_all
  show ?thesis
    unfolding crop_eq W H using rows assms(1) by simp
qed


text \<open>
  Claim C9.  For an image of width \<open>W\<close> and height \<open>H\<close> and integers
  \<open>x\<close>, \<open>y\<close>, \<open>w\<close>, \<open>h\<close>, \<open>crop\<close> clamps \<open>x\<close> into \<open>[0, W]\<close>, \<open>y\<close> into
  \<open>[0, H]\<close>, \<open>w\<close> into \<open>[0, W - cx]\<close> and \<open>h\<close> into \<open>[0, H - cy]\<close> (\<open>cx\<close>, \<open>cy\<close>
  the clamped \<open>x\<close>, \<open>y\<close>).  When the clamped width or height is 0 the result
  is the input image; otherwise it has \<open>ch\<close> rows, and row \<open>i\<close> is the columns
  \<open>cx\<close> to \<open>cx + cw\<close> (exclusive) of row \<open>cy + i\<close> of the input.  On every
  100 by 100 image, \<open>crop(x=-5, y=-5, w=10000, h=10000)\<close> is the whole image.
\<close>

theorem crop_clamps_into_bounds:
  fixes img :: "'a image" and x y w h :: int
  defines "W \<equiv> shape_width img" and "H \<equiv> shape_height img"
  defines "cx \<equiv> max 0 (min x W)" and "cy \<equiv> max 0 (min y H)"
  defines "cw \<equiv> max 0 (min w (W - cx))" and "ch \<equiv> max 0 (min h (H - cy))"
  shows
  "0 \<le> cx \<and> cx \<le> W \<and> 0 \<le> cy \<and> cy \<le> H \<and>
   0 \<le> cw \<and> cw \<le> W - cx \<and> 0 \<le> ch \<and> ch \<le> H - cy \<and>
   (cw = 0 \<or> ch = 0 \<longrightarrow> crop img x y w h = img) \<and>
   (cw \<noteq> 0 \<and> ch \<noteq> 0 \<longrightarrow>
      length (crop img x y w h) = nat ch \<and>
      (\<forall>i < nat ch.
         crop img x y w h ! i = take (nat cw) (drop (nat cx) (img ! (nat cy + i))))) \<and>
   (length img = 100 \<and> list_all (\<lambda>row. length row = 100) img
      \<longrightarrow> crop img (- 5) (- 5) 10000 10000 = img)"
proof -
  have ce: "crop img x y w h =
     (if cw = 0 \<or> ch = 0 then img
      else map (\<lambda>row. take (nat cw) (drop (nat cx) row)) (take (nat ch) (drop (nat cy) img)))"
    unfolding cw_def ch_def cx_def cy_def W_def H_def by (rule crop_eq)
  have W0: "0 \<le> W" unfolding W_def by (rule shape_width_nonneg)
  have H0: "0 \<le> H" unfolding H_def by (rule shape_height_nonneg)
  have b1: "0 \<le> cx" "cx \<le> W" unfolding cx_def using W0 by simp_all
  have b2: "0 \<le> cy" "cy \<le> H" unfolding cy_def using H0 by simp_all
  have b3: "0 \<le> cw" "cw \<le> W - cx" unfolding cw_def using b1 by simp_all
  have b4: "0 \<le> ch" "ch \<le> H - cy" unfolding ch_def using b2 by simp_all
  have z: "cw = 0 \<or> ch = 0 \<longrightarrow> crop img x y w h = img"
    unfolding ce by simp
  have Hl: "H = int (length img)" unfolding H_def shape_height_def ..
  have le: "nat cy + nat ch \<le> length img"
    using b2 b4 Hl by linarith
  have n1: "cw \<noteq> 0 \<and> ch \<noteq> 0 \<longrightarrow> length (crop img x y w h) = nat ch"
    unfolding ce using le by simp
  have n2: "cw \<noteq> 0 \<and> ch \<noteq> 0 \<longrightarrow> (\<forall>i < nat ch.
         crop img x y w h ! i = take (nat cw) (drop (nat cx) (img ! (nat cy + i))))"
    unfolding ce using le by simp
  have f: "length img = 100 \<and> list_all (\<lambda>row. length row = 100) img
      \<longrightarrow> crop img (- 5) (- 5) 10000 10000 = img"
    using crop_full_100 [of img] by blast
  from b1 b2 b3 b4 z n1 n2 f show ?thesis by blast
qed


theorem crop_clamps_into_bounds_witness:
  "length (replicate 100 (replicate 100 (0::nat))) = 100
   \<and> list_all (\<lambda>row. length row = 100) (replicate 100 (replicate 100 (0::nat)))
   \<and> crop (replicate 100 (replicate 100 (0::nat))) (- 5) (- 5) 10000 10000
       = replicate 100 (replicate 100 0)
   \<and> crop [[1, 2, 3, 4], [5, 6, 7, 8], [9, 10, 11, 12 :: nat]] 1 1 0 7
       = [[1, 2, 3, 4], [5, 6, 7, 8], [9, 10, 11, 12]]
   \<and> length (crop [[1, 2, 3, 4], [5, 6, 7, 8], [9, 10, 11, 12 :: nat]] 1 1 2 7) = 2
   \<and> crop [[1, 2, 3, 4], [5, 6, 7, 8], [9, 10, 11, 12 :: nat]] 1 1 2 7 ! 0 = [6, 7]
   \<and> crop [[1, 2, 3, 4], [5, 6, 7, 8], [9, 10, 11, 12 :: nat]] 1 1 2 7 ! 1 = [10, 11]"
proof -
  have a: "length (replicate 100 (replicate 100 (0::nat))) = 100
     \<and> list_all (\<lambda>row. length row = 100) (replicate 100 (replicate 100 (0::nat)))"
    by (simp add: list_all_iff)
  have full: "crop (replicate 100 (replicate 100 (0::nat))) (- 5) (- 5) 10000 10000
       = replicate 100 (replicate 100 0)"
    using a crop_clamps_into_bounds [where img = "replicate 100 (replicate 100 (0::nat))"
        and x = 0 and y = 0 and w = 0 and h = 0]
    by blast
  have zero: "crop [[1, 2, 3, 4], [5, 6, 7, 8], [9, 10, 11, 12 :: nat]] 1 1 0 7
       = [[1, 2, 3, 4], [5, 6, 7, 8], [9, 10, 11, 12]]"
    using crop_clamps_into_bounds [where img = "[[1, 2, 3, 4], [5, 6, 7, 8], [9, 10, 11, 12 :: nat]]"
        and x = 1 and y = 1 and w = 0 and h = 7]
    by (simp add: shape_width_def shape_height_def)
  have part: "length (crop [[1, 2, 3, 4], [5, 6, 7, 8], [9, 10, 11, 12 :: nat]] 1 1 2 7) = 2
   \<and> crop [[1, 2, 3, 4], [5, 6, 7, 8], [9, 10, 11, 12 :: nat]] 1 1 2 7 ! 0 = [6, 7]
   \<and> crop [[1, 2, 3, 4], [5, 6, 7, 8], [9, 10, 11, 12 :: nat]] 1 1 2 7 ! 1 = [10, 11]"
    using crop_clamps_into_bounds [where img = "[[1, 2, 3, 4], [5, 6, 7, 8], [9, 10, 11, 12 :: nat]]"
        and x = 1 and y = 1 and w = 2 and h = 7]
    by (simp add: shape_width_def shape_height_def)
  from a full zero part show ?thesis by blast
qed

section \<open>The Tesseract adapter\<close>

lemma bind_err_Inl: "bind_err (Inl e) f = Inl e"
  by (simp add: bind_err_def)

lemma bind_err_Inr: "bind_err (Inr v) f = f v"
  by (simp add: bind_err_def)

text \<open>One iteration on a token that every list holds.\<close>

lemma tess_step_ok:
  assumes "i < length (d_text data)" "i < length (d_conf data)" "i < length (d_left data)"
    "i < length (d_top data)" "i < length (d_width data)" "i < length (d_height data)"
  shows "tess_step data i acc =
     Inr (if d_conf data ! i > 0
          then acc @ [\<lparr>text' = d_text data ! i, confidence = of_int (d_conf data ! i) / 100,
                 bbox = AxisAligned (d_left data ! i) (d_top data ! i)
                          (d_width data ! i) (d_height data ! i)\<rparr>]
          else acc)"
  using assms by (simp add: tess_step_def py_index_def bind_err_Inr)

lemma tess_loop_ok:
  assumes "\<forall>i \<in> set idxs. i < length (d_text data) \<and> i < length (d_conf data)
      \<and> i < length (d_left data) \<and> i < length (d_top data)
      \<and> i < length (d_width data) \<and> i < length (d_height data)"
  shows "tess_loop data idxs acc =
     Inr (acc @ map (\<lambda>i. \<lparr>text' = d_text data ! i, confidence = of_int (d_conf data ! i) / 100,
                 bbox = AxisAligned (d_left data ! i) (d_top data ! i)
                          (d_width data ! i) (d_height data ! i)\<rparr>)
            (filter (\<lambda>i. d_conf data ! i > 0) idxs))"
  using assms
proof (induction idxs arbitrary: acc)
  case Nil
  show ?case by simp
next
  case (Cons i rest)
  have s: "tess_step data i acc =
     Inr (if d_conf data ! i > 0
          then acc @ [\<lparr>text' = d_text data ! i, confidence = of_int (d_conf data ! i) / 100,
                 bbox = AxisAligned (d_left data ! i) (d_top data ! i)
                          (d_width data ! i) (d_height data ! i)\<rparr>]
          else acc)"
    using Cons.prems by (intro tess_step_ok) simp_all
  have r: "\<forall>i \<in> set rest. i < length (d_text data) \<and> i < length (d_conf data)
      \<and> i < length (d_left data) \<and> i < length (d_top data)
      \<and> i < length (d_width data) \<and> i < length (d_height data)"
    using Cons.prems by simp
  show ?case
    by (simp add: s bind_err_Inr Cons.IH [OF r])
qed

lemma tess_lines_ok:
  assumes "length (d_conf data) = length (d_text data)" "length (d_left data) = length (d_text data)"
    "length (d_top data) = length (d_text data)" "length (d_width data) = length (d_text data)"
    "length (d_height data) = length (d_text data)"
  shows "tess_lines data =
     Inr (map (\<lambda>i. \<lparr>text' = d_text data ! i, confidence = of_int (d_conf data ! i) / 100,
                 bbox = AxisAligned (d_left data ! i) (d_top data ! i)
                          (d_width data ! i) (d_height data ! i)\<rparr>)
            (filter (\<lambda>i. d_conf data ! i > 0) [0..<length (d_text data)]))"
proof -
  have "\<forall>i \<in> set [0..<length (d_text data)]. i < length (d_text data) \<and> i < length (d_conf data)
      \<and> i < length (d_left data) \<and> i < length (d_top data)
      \<and> i < length (d_width data) \<and> i < length (d_height data)"
    using assms by simp
  from tess_loop_ok [OF this, of "[]"] show ?thesis
    by (simp add: tess_lines_def)
qed


lemma tesseract_success:
  assumes "Image_open p = Inr img" "image_to_data img = Inr data" "image_to_string img = Inr s"
    "tess_lines data = Inr ls"
  shows "TesseractOCREngine_recognize Image_open image_to_data image_to_string p
     = success_result ''tesseract'' (py_strip s) ls"
  using assms by (simp add: TesseractOCREngine_recognize_def bind_err_Inr Let_def)

lemma tess_lines_example:
  "tess_lines \<lparr>d_text = [''x'', ''y'', ''z''], d_conf = [- 1, 0, 45], d_left = [1, 2, 3],
               d_top = [4, 5, 6], d_width = [7, 8, 9], d_height = [10, 11, 12]\<rparr>
   = Inr [\<lparr>text' = ''z'', confidence = 45 / 100, bbox = AxisAligned 3 6 9 12\<rparr>]"
  by (simp add: tess_lines_def tess_step_def py_index_def bind_err_def upt_rec)

text \<open>
  Claim C6.  In the Tesseract adapter, on data whose six lists have the same
  length, the fragments are exactly the tokens whose integer confidence is
  greater than 0, in token order, and each fragment's confidence is the raw
  confidence divided by 100; these are the fragments of a successful result.
  Tokens with confidence \<open>-1\<close> and \<open>0\<close> yield nothing, one with confidence 45
  yields a fragment of confidence \<open>45/100\<close>.
\<close>

theorem tesseract_confidence_filter:
  "(length (d_conf data) = length (d_text data) \<and> length (d_left data) = length (d_text data) \<and>
    length (d_top data) = length (d_text data) \<and> length (d_width data) = length (d_text data) \<and>
    length (d_height data) = length (d_text data)
    \<longrightarrow> tess_lines data =
      Inr (map (\<lambda>i. \<lparr>text' = d_text data ! i, confidence = of_int (d_conf data ! i) / 100,
                 bbox = AxisAligned (d_left data ! i) (d_top data ! i)
                          (d_width data ! i) (d_height data ! i)\<rparr>)
            (filter (\<lambda>i. d_conf data ! i > 0) [0..<length (d_text data)])))
   \<and> (Image_open p = Inr img \<and> image_to_data img = Inr data \<and> image_to_string img = Inr s
       \<and> tess_lines data = Inr ls
      \<longrightarrow> res_lines (TesseractOCREngine_recognize Image_open image_to_data image_to_string p)
          = Some ls)
   \<and> tess_lines \<lparr>d_text = [''x'', ''y'', ''z''], d_conf = [- 1, 0, 45], d_left = [1, 2, 3],
               d_top = [4, 5, 6], d_width = [7, 8, 9], d_height = [10, 11, 12]\<rparr>
      = Inr [\<lparr>text' = ''z'', confidence = 45 / 100, bbox = AxisAligned 3 6 9 12\<rparr>]"
proof (intro conjI impI)
  assume a: "length (d_conf data) = length (d_text data) \<and> length (d_left data) = length (d_text data) \<and>
    length (d_top data) = length (d_text data) \<and> length (d_width data) = length (d_text data) \<and>
    length (d_height data) = length (d_text data)"
  then show "tess_lines data =
      Inr (map (\<lambda>i. \<lparr>text' = d_text data ! i, confidence = of_int (d_conf data ! i) / 100,
                 bbox = AxisAligned (d_left data ! i) (d_top data ! i)
                          (d_width data ! i) (d_height data ! i)\<rparr>)
            (filter (\<lambda>i. d_conf data ! i > 0) [0..<length (d_text data)]))"
    by (intro tess_lines_ok) simp_all
next
  assume "Image_open p = Inr img \<and> image_to_data img = Inr data \<and> image_to_string img = Inr s
       \<and> tess_lines data = Inr ls"
  then show "res_lines (TesseractOCREngine_recognize Image_open image_to_data image_to_string p)
          = Some ls"
    using tesseract_success [of Image_open p img image_to_data data image_to_string s ls]
    by (simp add: success_result_def)
next
  show "tess_lines \<lparr>d_text = [''x'', ''y'', ''z''], d_conf = [- 1, 0, 45], d_left = [1, 2, 3],
               d_top = [4, 5, 6], d_width = [7, 8, 9], d_height = [10, 11, 12]\<rparr>
      = Inr [\<lparr>text' = ''z'', confidence = 45 / 100, bbox = AxisAligned 3 6 9 12\<rparr>]"
    by (rule tess_lines_example)
qed


theorem tesseract_confidence_filter_witness:
  "length (d_conf \<lparr>d_text = [''x'', ''y'', ''z''], d_conf = [- 1, 0, 45], d_left = [1, 2, 3],
               d_top = [4, 5, 6], d_width = [7, 8, 9], d_height = [10, 11, 12]\<rparr>) = length (d_text \<lparr>d_text = [''x'', ''y'', ''z''], d_conf = [- 1, 0, 45], d_left = [1, 2, 3],
               d_top = [4, 5, 6], d_width = [7, 8, 9], d_height = [10, 11, 12]\<rparr>)
   \<and> tess_lines \<lparr>d_text = [''x'', ''y'', ''z''], d_conf = [- 1, 0, 45], d_left = [1, 2, 3],
               d_top = [4, 5, 6], d_width = [7, 8, 9], d_height = [10, 11, 12]\<rparr>
      = Inr [\<lparr>text' = ''z'', confidence = 45 / 100, bbox = AxisAligned 3 6 9 12\<rparr>]
   \<and> map (\<lambda>i. \<lparr>text' = d_text \<lparr>d_text = [''x'', ''y'', ''z''], d_conf = [- 1, 0, 45], d_left = [1, 2, 3],
               d_top = [4, 5, 6], d_width = [7, 8, 9], d_height = [10, 11, 12]\<rparr> ! i, confidence = of_int (d_conf \<lparr>d_text = [''x'', ''y'', ''z''], d_conf = [- 1, 0, 45], d_left = [1, 2, 3],
               d_top = [4, 5, 6], d_width = [7, 8, 9], d_height = [10, 11, 12]\<rparr> ! i) / 100,
                 bbox = AxisAligned (d_left \<lparr>d_text = [''x'', ''y'', ''z''], d_conf = [- 1, 0, 45], d_left = [1, 2, 3],
               d_top = [4, 5, 6], d_width = [7, 8, 9], d_height = [10, 11, 12]\<rparr> ! i) (d_top \<lparr>d_text = [''x'', ''y'', ''z''], d_conf = [- 1, 0, 45], d_left = [1, 2, 3],
               d_top = [4, 5, 6], d_width = [7, 8, 9], d_height = [10, 11, 12]\<rparr> ! i)
                          (d_width \<lparr>d_text = [''x'', ''y'', ''z''], d_conf = [- 1, 0, 45], d_left = [1, 2, 3],
               d_top = [4, 5, 6], d_width = [7, 8, 9], d_height = [10, 11, 12]\<rparr> ! i) (d_height \<lparr>d_text = [''x'', ''y'', ''z''], d_conf = [- 1, 0, 45], d_left = [1, 2, 3],
               d_top = [4, 5, 6], d_width = [7, 8, 9], d_height = [10, 11, 12]\<rparr> ! i)\<rparr>)
            (filter (\<lambda>i. d_conf \<lparr>d_text = [''x'', ''y'', ''z''], d_conf = [- 1, 0, 45], d_left = [1, 2, 3],
               d_top = [4, 5, 6], d_width = [7, 8, 9], d_height = [10, 11, 12]\<rparr> ! i > 0) [0..<length (d_text \<lparr>d_text = [''x'', ''y'', ''z''], d_conf = [- 1, 0, 45], d_left = [1, 2, 3],
               d_top = [4, 5, 6], d_width = [7, 8, 9], d_height = [10, 11, 12]\<rparr>)])
      = [\<lparr>text' = ''z'', confidence = 45 / 100, bbox = AxisAligned 3 6 9 12\<rparr>]
   \<and> res_lines (TesseractOCREngine_recognize (\<lambda>p. Inr ()) (\<lambda>u. Inr \<lparr>d_text = [''x'', ''y'', ''z''], d_conf = [- 1, 0, 45], d_left = [1, 2, 3],
               d_top = [4, 5, 6], d_width = [7, 8, 9], d_height = [10, 11, 12]\<rparr>)
         (\<lambda>u. Inr ''x y z'') ''scan.png'')
      = Some [\<lparr>text' = ''z'', confidence = 45 / 100, bbox = AxisAligned 3 6 9 12\<rparr>]"
proof -
  have l: "length (d_conf \<lparr>d_text = [''x'', ''y'', ''z''], d_conf = [- 1, 0, 45], d_left = [1, 2, 3],
               d_top = [4, 5, 6], d_width = [7, 8, 9], d_height = [10, 11, 12]\<rparr>) = length (d_text \<lparr>d_text = [''x'', ''y'', ''z''], d_conf = [- 1, 0, 45], d_left = [1, 2, 3],
               d_top = [4, 5, 6], d_width = [7, 8, 9], d_height = [10, 11, 12]\<rparr>) \<and>
    length (d_left \<lparr>d_text = [''x'', ''y'', ''z''], d_conf = [- 1, 0, 45], d_left = [1, 2, 3],
               d_top = [4, 5, 6], d_width = [7, 8, 9], d_height = [10, 11, 12]\<rparr>) = length (d_text \<lparr>d_text = [''x'', ''y'', ''z''], d_conf = [- 1, 0, 45], d_left = [1, 2, 3],
               d_top = [4, 5, 6], d_width = [7, 8, 9], d_height = [10, 11, 12]\<rparr>) \<and>
    length (d_top \<lparr>d_text = [''x'', ''y'', ''z''], d_conf = [- 1, 0, 45], d_left = [1, 2, 3],
               d_top = [4, 5, 6], d_width = [7, 8, 9], d_height = [10, 11, 12]\<rparr>) = length (d_text \<lparr>d_text = [''x'', ''y'', ''z''], d_conf = [- 1, 0, 45], d_left = [1, 2, 3],
               d_top = [4, 5, 6], d_width = [7, 8, 9], d_height = [10, 11, 12]\<rparr>) \<and>
    length (d_width \<lparr>d_text = [''x'', ''y'', ''z''], d_conf = [- 1, 0, 45], d_left = [1, 2, 3],
               d_top = [4, 5, 6], d_width = [7, 8, 9], d_height = [10, 11, 12]\<rparr>) = length (d_text \<lparr>d_text = [''x'', ''y'', ''z''], d_conf = [- 1, 0, 45], d_left = [1, 2, 3],
               d_top = [4, 5, 6], d_width = [7, 8, 9], d_height = [10, 11, 12]\<rparr>) \<and>
    length (d_height \<lparr>d_text = [''x'', ''y'', ''z''], d_conf = [- 1, 0, 45], d_left = [1, 2, 3],
               d_top = [4, 5, 6], d_width = [7, 8, 9], d_height = [10, 11, 12]\<rparr>) = length (d_text \<lparr>d_text = [''x'', ''y'', ''z''], d_conf = [- 1, 0, 45], d_left = [1, 2, 3],
               d_top = [4, 5, 6], d_width = [7, 8, 9], d_height = [10, 11, 12]\<rparr>)"
    by simp
  note t = tesseract_confidence_filter [of "\<lparr>d_text = [''x'', ''y'', ''z''], d_conf = [- 1, 0, 45], d_left = [1, 2, 3],
               d_top = [4, 5, 6], d_width = [7, 8, 9], d_height = [10, 11, 12]\<rparr>" "\<lambda>p. Inr ()" "''scan.png''" "()"
      "\<lambda>u. Inr \<lparr>d_text = [''x'', ''y'', ''z''], d_conf = [- 1, 0, 45], d_left = [1, 2, 3],
               d_top = [4, 5, 6], d_width = [7, 8, 9], d_height = [10, 11, 12]\<rparr>" "\<lambda>u. Inr ''x y z''" "''x y z''"
      "[\<lparr>text' = ''z'', confidence = 45 / 100, bbox = AxisAligned 3 6 9 12\<rparr>]"]
  from t have e: "tess_lines \<lparr>d_text = [''x'', ''y'', ''z''], d_conf = [- 1, 0, 45], d_left = [1, 2, 3],
               d_top = [4, 5, 6], d_width = [7, 8, 9], d_height = [10, 11, 12]\<rparr>
      = Inr [\<lparr>text' = ''z'', confidence = 45 / 100, bbox = AxisAligned 3 6 9 12\<rparr>]"
    by blast
  from t l have m: "tess_lines \<lparr>d_text = [''x'', ''y'', ''z''], d_conf = [- 1, 0, 45], d_left = [1, 2, 3],
               d_top = [4, 5, 6], d_width = [7, 8, 9], d_height = [10, 11, 12]\<rparr> =
      Inr (map (\<lambda>i. \<lparr>text' = d_text \<lparr>d_text = [''x'', ''y'', ''z''], d_conf = [- 1, 0, 45], d_left = [1, 2, 3],
               d_top = [4, 5, 6], d_width = [7, 8, 9], d_height = [10, 11, 12]\<rparr> ! i, confidence = of_int (d_conf \<lparr>d_text = [''x'', ''y'', ''z''], d_conf = [- 1, 0, 45], d_left = [1, 2, 3],
               d_top = [4, 5, 6], d_width = [7, 8, 9], d_height = [10, 11, 12]\<rparr> ! i) / 100,
                 bbox = AxisAligned (d_left \<lparr>d_text = [''x'', ''y'', ''z''], d_conf = [- 1, 0, 45], d_left = [1, 2, 3],
               d_top = [4, 5, 6], d_width = [7, 8, 9], d_height = [10, 11, 12]\<rparr> ! i) (d_top \<lparr>d_text = [''x'', ''y'', ''z''], d_conf = [- 1, 0, 45], d_left = [1, 2, 3],
               d_top = [4, 5, 6], d_width = [7, 8, 9], d_height = [10, 11, 12]\<rparr> ! i)
                          (d_width \<lparr>d_text = [''x'', ''y'', ''z''], d_conf = [- 1, 0, 45], d_left = [1, 2, 3],
               d_top = [4, 5, 6], d_width = [7, 8, 9], d_height = [10, 11, 12]\<rparr> ! i) (d_height \<lparr>d_text = [''x'', ''y'', ''z''], d_conf = [- 1, 0, 45], d_left = [1, 2, 3],
               d_top = [4, 5, 6], d_width = [7, 8, 9], d_height = [10, 11, 12]\<rparr> ! i)\<rparr>)
            (filter (\<lambda>i. d_conf \<lparr>d_text = [''x'', ''y'', ''z''], d_conf = [- 1, 0, 45], d_left = [1, 2, 3],
               d_top = [4, 5, 6], d_width = [7, 8, 9], d_height = [10, 11, 12]\<rparr> ! i > 0) [0..<length (d_text \<lparr>d_text = [''x'', ''y'', ''z''], d_conf = [- 1, 0, 45], d_left = [1, 2, 3],
               d_top = [4, 5, 6], d_width = [7, 8, 9], d_height = [10, 11, 12]\<rparr>)]))"
    by blast
  from t e have r: "res_lines (TesseractOCREngine_recognize (\<lambda>p. Inr ()) (\<lambda>u. Inr \<lparr>d_text = [''x'', ''y'', ''z''], d_conf = [- 1, 0, 45], d_left = [1, 2, 3],
               d_top = [4, 5, 6], d_width = [7, 8, 9], d_height = [10, 11, 12]\<rparr>)
         (\<lambda>u. Inr ''x y z'') ''scan.png'')
      = Some [\<lparr>text' = ''z'', confidence = 45 / 100, bbox = AxisAligned 3 6 9 12\<rparr>]"
    by blast
  from m e have m2: "map (\<lambda>i. \<lparr>text' = d_text \<lparr>d_text = [''x'', ''y'', ''z''], d_conf = [- 1, 0, 45], d_left = [1, 2, 3],
               d_top = [4, 5, 6], d_width = [7, 8, 9], d_height = [10, 11, 12]\<rparr> ! i, confidence = of_int (d_conf \<lparr>d_text = [''x'', ''y'', ''z''], d_conf = [- 1, 0, 45], d_left = [1, 2, 3],
               d_top = [4, 5, 6], d_width = [7, 8, 9], d_height = [10, 11, 12]\<rparr> ! i) / 100,
                 bbox = AxisAligned (d_left \<lparr>d_text = [''x'', ''y'', ''z''], d_conf = [- 1, 0, 45], d_left = [1, 2, 3],
               d_top = [4, 5, 6], d_width = [7, 8, 9], d_height = [10, 11, 12]\<rparr> ! i) (d_top \<lparr>d_text = [''x'', ''y'', ''z''], d_conf = [- 1, 0, 45], d_left = [1, 2, 3],
               d_top = [4, 5, 6], d_width = [7, 8, 9], d_height = [10, 11, 12]\<rparr> ! i)
                          (d_width \<lparr>d_text = [''x'', ''y'', ''z''], d_conf = [- 1, 0, 45], d_left = [1, 2, 3],
               d_top = [4, 5, 6], d_width = [7, 8, 9], d_height = [10, 11, 12]\<rparr> ! i) (d_height \<lparr>d_text = [''x'', ''y'', ''z''], d_conf = [- 1, 0, 45], d_left = [1, 2, 3],
               d_top = [4, 5, 6], d_width = [7, 8, 9], d_height = [10, 11, 12]\<rparr> ! i)\<rparr>)
            (filter (\<lambda>i. d_conf \<lparr>d_text = [''x'', ''y'', ''z''], d_conf = [- 1, 0, 45], d_left = [1, 2, 3],
               d_top = [4, 5, 6], d_width = [7, 8, 9], d_height = [10, 11, 12]\<rparr> ! i > 0) [0..<length (d_text \<lparr>d_text = [''x'', ''y'', ''z''], d_conf = [- 1, 0, 45], d_left = [1, 2, 3],
               d_top = [4, 5, 6], d_width = [7, 8, 9], d_height = [10, 11, 12]\<rparr>)])
      = [\<lparr>text' = ''z'', confidence = 45 / 100, bbox = AxisAligned 3 6 9 12\<rparr>]"
    by (simp only: sum.inject)
  from l e m2 r show ?thesis by blast
qed

section \<open>The text of a result\<close>

lemma reconstruct_layout_Nil: "reconstruct_layout [] = Inr ([], [])"
  by (simp add: reconstruct_layout_def)

lemma paddle_backend_raises:
  "ocr p = Inl e \<Longrightarrow> PaddleOCREngine_recognize ocr p = failure_result ''paddleocr'' e"
  by (simp add: PaddleOCREngine_recognize_def bind_err_Inl)

lemma paddle_backend_returns:
  assumes "ocr p = Inr result"
  shows "PaddleOCREngine_recognize ocr p =
     (case reconstruct_layout
             (case result of Some raw # u \<Rightarrow> map paddle_fragment raw | _ \<Rightarrow> []) of
        Inl e \<Rightarrow> failure_result ''paddleocr'' e
      | Inr (out, lines1) \<Rightarrow> success_result ''paddleocr'' out lines1)"
proof (cases result)
  case Nil
  then show ?thesis
    using assms by (simp add: PaddleOCREngine_recognize_def bind_err_Inr reconstruct_layout_Nil)
next
  case (Cons first rest)
  show ?thesis
  proof (cases first)
    case None
    then show ?thesis
      using assms Cons
      by (simp add: PaddleOCREngine_recognize_def bind_err_Inr reconstruct_layout_Nil)
  next
    case (Some raw)
    show ?thesis
    proof (cases raw)
      case Nil
      then show ?thesis
        using assms Cons Some
        by (simp add: PaddleOCREngine_recognize_def bind_err_Inr reconstruct_layout_Nil)
    next
      case (Cons d ds)
      then show ?thesis
        using assms \<open>result = first # rest\<close> Some
        by (simp add: PaddleOCREngine_recognize_def bind_err_def Let_def
            split: sum.splits prod.splits)
    qed
  qed
qed

lemma easy_backend_raises:
  "readtext p = Inl e \<Longrightarrow> EasyOCREngine_recognize readtext p = failure_result ''easyocr'' e"
  by (simp add: EasyOCREngine_recognize_def bind_err_Inl)

lemma easy_backend_returns:
  assumes "readtext p = Inr results"
  shows "EasyOCREngine_recognize readtext p =
     (case reconstruct_layout (map easy_fragment results) of
        Inl e \<Rightarrow> failure_result ''easyocr'' e
      | Inr (out, lines1) \<Rightarrow> success_result ''easyocr'' out lines1)"
  using assms
  by (simp add: EasyOCREngine_recognize_def bind_err_def Let_def split: sum.splits prod.splits)

lemma tesseract_cases:
  "TesseractOCREngine_recognize Image_open image_to_data image_to_string p =
     (case Image_open p of
        Inl e \<Rightarrow> failure_result ''tesseract'' e
      | Inr img \<Rightarrow>
          (case image_to_data img of
             Inl e \<Rightarrow> failure_result ''tesseract'' e
           | Inr data \<Rightarrow>
               (case image_to_string img of
                  Inl e \<Rightarrow> failure_result ''tesseract'' e
                | Inr s \<Rightarrow>
                    (case tess_lines data of
                       Inl e \<Rightarrow> failure_result ''tesseract'' e
                     | Inr ls \<Rightarrow> success_result ''tesseract'' (py_strip s) ls))))"
  by (simp add: TesseractOCREngine_recognize_def bind_err_def Let_def split: sum.splits)

lemma failure_not_success: "\<not> res_success (failure_result kind e)"
  by (simp add: failure_result_def)


lemma py_strip_unchanged:
  assumes "s \<noteq> []" "\<not> py_isspace (hd s)" "\<not> py_isspace (last s)"
  shows "py_strip s = s"
proof -
  have "dropWhile py_isspace s = s"
    using assms(2) by (simp add: dropWhile_eq_self_iff)
  moreover have "dropWhile py_isspace (rev s) = rev s"
    using assms(1,3) by (simp add: dropWhile_eq_self_iff hd_rev)
  ultimately show ?thesis by (simp add: py_strip_def)
qed

lemma tesseract_success_text:
  assumes "res_success (TesseractOCREngine_recognize Image_open image_to_data image_to_string p)"
  shows "\<exists>img data s ls. Image_open p = Inr img \<and> image_to_data img = Inr data \<and>
     image_to_string img = Inr s \<and> tess_lines data = Inr ls \<and>
     TesseractOCREngine_recognize Image_open image_to_data image_to_string p
       = success_result ''tesseract'' (py_strip s) ls"
  using assms unfolding tesseract_cases
  by (auto simp: failure_not_success split: sum.splits)

lemma paddle_success_text:
  assumes "res_success (PaddleOCREngine_recognize ocr p)"
  shows "\<exists>result out. ocr p = Inr result \<and>
     layout_text (case result of Some raw # u \<Rightarrow> map paddle_fragment raw | _ \<Rightarrow> []) = Inr out \<and>
     res_text (PaddleOCREngine_recognize ocr p) = Some out"
proof (cases "ocr p")
  case (Inl e)
  then show ?thesis using assms by (simp add: paddle_backend_raises failure_not_success)
next
  case (Inr result)
  show ?thesis
    using assms unfolding paddle_backend_returns [of ocr p result, OF Inr] layout_text_def
    by (auto simp: Inr failure_not_success success_result_def split: sum.splits)
qed

lemma easy_success_text:
  assumes "res_success (EasyOCREngine_recognize readtext p)"
  shows "\<exists>results out. readtext p = Inr results \<and>
     layout_text (map easy_fragment results) = Inr out \<and>
     res_text (EasyOCREngine_recognize readtext p) = Some out"
proof (cases "readtext p")
  case (Inl e)
  then show ?thesis using assms by (simp add: easy_backend_raises failure_not_success)
next
  case (Inr results)
  show ?thesis
    using assms unfolding easy_backend_returns [of readtext p results, OF Inr] layout_text_def
    by (auto simp: Inr failure_not_success success_result_def split: sum.splits)
qed

text \<open>
  The counterexample to claim C7 as stated: Tesseract's whole-image string
  ends with a newline and a form feed; the result text is the stripped string,
  not the string itself.
\<close>

theorem tesseract_text_verbatim_counterexample:
  "res_success (TesseractOCREngine_recognize (\<lambda>p. Inr ()) (\<lambda>u. Inr \<lparr>d_text = [], d_conf = [], d_left = [], d_top = [], d_width = [], d_height = []\<rparr>)
       (\<lambda>u. Inr (''hi'' @ [CHR 0x0A, CHR 0x0C])) ''scan.png'')
   \<and> res_text (TesseractOCREngine_recognize (\<lambda>p. Inr ()) (\<lambda>u. Inr \<lparr>d_text = [], d_conf = [], d_left = [], d_top = [], d_width = [], d_height = []\<rparr>)
       (\<lambda>u. Inr (''hi'' @ [CHR 0x0A, CHR 0x0C])) ''scan.png'') = Some ''hi''
   \<and> res_text (TesseractOCREngine_recognize (\<lambda>p. Inr ()) (\<lambda>u. Inr \<lparr>d_text = [], d_conf = [], d_left = [], d_top = [], d_width = [], d_height = []\<rparr>)
       (\<lambda>u. Inr (''hi'' @ [CHR 0x0A, CHR 0x0C])) ''scan.png'')
     \<noteq> Some (''hi'' @ [CHR 0x0A, CHR 0x0C])"
  by (simp add: tesseract_cases tess_lines_def success_result_def py_strip_def py_isspace_def)


text \<open>
  Claim C7, as amended.  The claim says the Tesseract adapter uses the
  whole-image string verbatim; the adapter calls \<open>.strip()\<close> on it (the
  counterexample above).  What holds, for every successful recognition: the
  Tesseract adapter's text is the whole-image string of \<open>image_to_string\<close> with
  leading and trailing whitespace stripped, whatever the tokens are, and
  its fragments are the ones built from the tokens, in token order (the layout
  reconstruction takes no part); a string that neither starts nor ends with
  whitespace is used as it is.  For the Paddle and EasyOCR adapters the text
  is what \<open>reconstruct_layout\<close> returns on the extracted fragments.
\<close>

theorem result_text_sources:
  "(res_success (TesseractOCREngine_recognize Image_open image_to_data image_to_string p) \<longrightarrow>
      (\<exists>img data s ls. Image_open p = Inr img \<and> image_to_data img = Inr data \<and>
         image_to_string img = Inr s \<and> tess_lines data = Inr ls \<and>
         res_text (TesseractOCREngine_recognize Image_open image_to_data image_to_string p)
           = Some (py_strip s) \<and>
         res_lines (TesseractOCREngine_recognize Image_open image_to_data image_to_string p)
           = Some ls))
   \<and> (str \<noteq> [] \<and> \<not> py_isspace (hd str) \<and> \<not> py_isspace (last str) \<longrightarrow> py_strip str = str)
   \<and> (res_success (PaddleOCREngine_recognize ocr p) \<longrightarrow>
      (\<exists>result out. ocr p = Inr result \<and>
         layout_text (case result of Some raw # u \<Rightarrow> map paddle_fragment raw | _ \<Rightarrow> [])
           = Inr out \<and>
         res_text (PaddleOCREngine_recognize ocr p) = Some out))
   \<and> (res_success (EasyOCREngine_recognize readtext p) \<longrightarrow>
      (\<exists>results out. readtext p = Inr results \<and>
         layout_text (map easy_fragment results) = Inr out \<and>
         res_text (EasyOCREngine_recognize readtext p) = Some out))"
proof (intro conjI impI)
  assume "res_success (TesseractOCREngine_recognize Image_open image_to_data image_to_string p)"
  from tesseract_success_text [OF this]
  show "\<exists>img data s ls. Image_open p = Inr img \<and> image_to_data img = Inr data \<and>
         image_to_string img = Inr s \<and> tess_lines data = Inr ls \<and>
         res_text (TesseractOCREngine_recognize Image_open image_to_data image_to_string p)
           = Some (py_strip s) \<and>
         res_lines (TesseractOCREngine_recognize Image_open image_to_data image_to_string p)
           = Some ls"
    by (auto simp: success_result_def)
next
  assume "str \<noteq> [] \<and> \<not> py_isspace (hd str) \<and> \<not> py_isspace (last str)"
  then show "py_strip str = str" by (simp add: py_strip_unchanged)
next
  assume "res_success (PaddleOCREngine_recognize ocr p)"
  then show "\<exists>result out. ocr p = Inr result \<and>
         layout_text (case result of Some raw # u \<Rightarrow> map paddle_fragment raw | _ \<Rightarrow> [])
           = Inr out \<and>
         res_text (PaddleOCREngine_recognize ocr p) = Some out"
    by (rule paddle_success_text)
next
  assume "res_success (EasyOCREngine_recognize readtext p)"
  then show "\<exists>results out. readtext p = Inr results \<and>
         layout_text (map easy_fragment results) = Inr out \<and>
         res_text (EasyOCREngine_recognize readtext p) = Some out"
    by (rule easy_success_text)
qed

lemma polygon_layout_example:
  "reconstruct_layout
     [\<lparr>text' = ''B'', confidence = 4 / 5, bbox = Polygon [(60, 8), (110, 8), (110, 28), (60, 28)]\<rparr>,
      \<lparr>text' = ''A'', confidence = 9 / 10, bbox = Polygon [(0, 0), (50, 0), (50, 20), (0, 20)]\<rparr>]
   = Inr (''A B'',
     [\<lparr>text' = ''A'', confidence = 9 / 10, bbox = Polygon [(0, 0), (50, 0), (50, 20), (0, 20)]\<rparr>,
      \<lparr>text' = ''B'', confidence = 4 / 5, bbox = Polygon [(60, 8), (110, 8), (110, 28), (60, 28)]\<rparr>])"
  by (simp add: reconstruct_layout_def group_rows_def same_row_spec row_line_def
      py_int_truediv_10 spaces_str_def)

theorem result_text_sources_witness:
  "res_success (TesseractOCREngine_recognize (\<lambda>p. Inr ()) (\<lambda>u. Inr \<lparr>d_text = [], d_conf = [], d_left = [], d_top = [], d_width = [], d_height = []\<rparr>)
       (\<lambda>u. Inr (''hi'' @ [CHR 0x0A, CHR 0x0C])) ''scan.png'') \<and> res_text (TesseractOCREngine_recognize (\<lambda>p. Inr ()) (\<lambda>u. Inr \<lparr>d_text = [], d_conf = [], d_left = [], d_top = [], d_width = [], d_height = []\<rparr>)
       (\<lambda>u. Inr (''hi'' @ [CHR 0x0A, CHR 0x0C])) ''scan.png'') = Some ''hi''
   \<and> py_strip ''hi'' = ''hi''
   \<and> res_success (PaddleOCREngine_recognize
       (\<lambda>p. Inr [Some [(Polygon [(60, 8), (110, 8), (110, 28), (60, 28)], (''B'', 4 / 5)),
                        (Polygon [(0, 0), (50, 0), (50, 20), (0, 20)], (''A'', 9 / 10))]])
       ''scan.png'') \<and> res_text (PaddleOCREngine_recognize
       (\<lambda>p. Inr [Some [(Polygon [(60, 8), (110, 8), (110, 28), (60, 28)], (''B'', 4 / 5)),
                        (Polygon [(0, 0), (50, 0), (50, 20), (0, 20)], (''A'', 9 / 10))]])
       ''scan.png'') = Some ''A B''
   \<and> res_success (EasyOCREngine_recognize
       (\<lambda>p. Inr [([(60, 8), (110, 8), (110, 28), (60, 28)], ''B'', 4 / 5),
                  ([(0, 0), (50, 0), (50, 20), (0, 20)], ''A'', 9 / 10)])
       ''scan.png'') \<and> res_text (EasyOCREngine_recognize
       (\<lambda>p. Inr [([(60, 8), (110, 8), (110, 28), (60, 28)], ''B'', 4 / 5),
                  ([(0, 0), (50, 0), (50, 20), (0, 20)], ''A'', 9 / 10)])
       ''scan.png'') = Some ''A B''"
proof -
  have t: "(TesseractOCREngine_recognize (\<lambda>p. Inr ()) (\<lambda>u. Inr \<lparr>d_text = [], d_conf = [], d_left = [], d_top = [], d_width = [], d_height = []\<rparr>)
       (\<lambda>u. Inr (''hi'' @ [CHR 0x0A, CHR 0x0C])) ''scan.png'') = success_result ''tesseract'' ''hi'' []"
    by (simp add: tesseract_cases tess_lines_def py_strip_def py_isspace_def)
  have pd: "(PaddleOCREngine_recognize
       (\<lambda>p. Inr [Some [(Polygon [(60, 8), (110, 8), (110, 28), (60, 28)], (''B'', 4 / 5)),
                        (Polygon [(0, 0), (50, 0), (50, 20), (0, 20)], (''A'', 9 / 10))]])
       ''scan.png'') = success_result ''paddleocr'' ''A B''
     [\<lparr>text' = ''A'', confidence = 9 / 10, bbox = Polygon [(0, 0), (50, 0), (50, 20), (0, 20)]\<rparr>,
      \<lparr>text' = ''B'', confidence = 4 / 5, bbox = Polygon [(60, 8), (110, 8), (110, 28), (60, 28)]\<rparr>]"
    by (simp add: PaddleOCREngine_recognize_def bind_err_def paddle_fragment_def Let_def
        polygon_layout_example)
  have e: "(EasyOCREngine_recognize
       (\<lambda>p. Inr [([(60, 8), (110, 8), (110, 28), (60, 28)], ''B'', 4 / 5),
                  ([(0, 0), (50, 0), (50, 20), (0, 20)], ''A'', 9 / 10)])
       ''scan.png'') = success_result ''easyocr'' ''A B''
     [\<lparr>text' = ''A'', confidence = 9 / 10, bbox = Polygon [(0, 0), (50, 0), (50, 20), (0, 20)]\<rparr>,
      \<lparr>text' = ''B'', confidence = 4 / 5, bbox = Polygon [(60, 8), (110, 8), (110, 28), (60, 28)]\<rparr>]"
    by (simp add: EasyOCREngine_recognize_def bind_err_def easy_fragment_def Let_def
        polygon_layout_example)
  have st: "''hi'' \<noteq> [] \<and> \<not> py_isspace (hd ''hi'') \<and> \<not> py_isspace (last ''hi'')"
    by (simp add: py_isspace_def)
  note r = result_text_sources [where str = "''hi''" and p = "''scan.png''"
      and Image_open = "\<lambda>p. Inr ()"
      and image_to_data = "\<lambda>u. Inr \<lparr>d_text = [], d_conf = [], d_left = [], d_top = [],
              d_width = [], d_height = []\<rparr>"
      and image_to_string = "\<lambda>u. Inr (''hi'' @ [CHR 0x0A, CHR 0x0C])"
      and ocr = "\<lambda>p. Inr [Some [(Polygon [(60, 8), (110, 8), (110, 28), (60, 28)], (''B'', 4 / 5)),
                        (Polygon [(0, 0), (50, 0), (50, 20), (0, 20)], (''A'', 9 / 10))]]"
      and readtext = "\<lambda>p. Inr [([(60, 8), (110, 8), (110, 28), (60, 28)], ''B'', 4 / 5),
                  ([(0, 0), (50, 0), (50, 20), (0, 20)], ''A'', 9 / 10)]"]
  from r st have "py_strip ''hi'' = ''hi''" by blast
  with t pd e show ?thesis by (simp add: success_result_def)
qed

section \<open>Failures of recognition\<close>

lemma paddle_total:
  "res_success (PaddleOCREngine_recognize ocr p)
   \<or> (\<exists>e. PaddleOCREngine_recognize ocr p = failure_result ''paddleocr'' e)"
proof (cases "ocr p")
  case (Inl e)
  then show ?thesis by (auto simp: paddle_backend_raises)
next
  case (Inr result)
  show ?thesis
    unfolding paddle_backend_returns [of ocr p result, OF Inr]
    by (auto simp: success_result_def split: sum.splits)
qed

lemma easy_total:
  "res_success (EasyOCREngine_recognize readtext p)
   \<or> (\<exists>e. EasyOCREngine_recognize readtext p = failure_result ''easyocr'' e)"
proof (cases "readtext p")
  case (Inl e)
  then show ?thesis by (auto simp: easy_backend_raises)
next
  case (Inr results)
  show ?thesis
    unfolding easy_backend_returns [of readtext p results, OF Inr]
    by (auto simp: success_result_def split: sum.splits)
qed

lemma tesseract_total:
  "res_success (TesseractOCREngine_recognize Image_open image_to_data image_to_string p)
   \<or> (\<exists>e. TesseractOCREngine_recognize Image_open image_to_data image_to_string p
          = failure_result ''tesseract'' e)"
  unfolding tesseract_cases by (auto simp: success_result_def split: sum.splits)

lemma reconstruct_layout_raises:
  "lines \<noteq> [] \<Longrightarrow> list_ex (\<lambda>l. bbox l = Polygon []) lines \<Longrightarrow>
   reconstruct_layout lines = Inl IndexError"
  by (simp add: reconstruct_layout_def)

text \<open>
  The counterexample to claim C5 as stated: on a fragment whose bbox is the
  empty list, \<open>reconstruct_layout\<close> raises \<open>IndexError\<close> (at \<open>bbox[0]\<close>, in the
  sort key).
\<close>

theorem reconstruct_layout_raises_counterexample:
  "reconstruct_layout [\<lparr>text' = ''a'', confidence = 1, bbox = Polygon []\<rparr>] = Inl IndexError
   \<and> layout_text [\<lparr>text' = ''a'', confidence = 1, bbox = Polygon []\<rparr>] = Inl IndexError"
  by (simp add: layout_text_def reconstruct_layout_def)

text \<open>
  Claim C5, as amended.  The claim says that \<open>reconstruct_layout\<close> never
  raises; it has no guard of its own, and on a fragment whose bbox is the
  empty list it raises \<open>IndexError\<close> (the counterexample above).  What holds:
  each adapter's \<open>recognize\<close> returns a result on every outcome of its
  backend, successful or the failure result of its engine kind; whatever is
  raised inside it (by a backend call, by an index into the token lists, by
  \<open>reconstruct_layout\<close>) becomes the result with \<open>success = False\<close>, the
  exception's message as \<open>error\<close> and the engine kind.  \<open>reconstruct_layout\<close>
  returns the empty string on the empty list; it returns on every list whose
  boxes are \<open>[x, y, w, h]\<close> or non-empty lists of points \<open>[x, y]\<close>, with
  integer coordinates in the 32-bit range; and it raises \<open>IndexError\<close> on a
  non-empty list that has an empty bbox.
\<close>

theorem recognize_never_propagates:
  "(res_success (PaddleOCREngine_recognize ocr p)
      \<or> (\<exists>e. PaddleOCREngine_recognize ocr p = failure_result ''paddleocr'' e))
   \<and> (ocr p = Inl e \<longrightarrow> PaddleOCREngine_recognize ocr p = failure_result ''paddleocr'' e)
   \<and> (ocr p = Inr result \<and>
        reconstruct_layout (case result of Some raw # u \<Rightarrow> map paddle_fragment raw | _ \<Rightarrow> [])
          = Inl e
      \<longrightarrow> PaddleOCREngine_recognize ocr p = failure_result ''paddleocr'' e)
   \<and> (res_success (EasyOCREngine_recognize readtext p)
      \<or> (\<exists>e. EasyOCREngine_recognize readtext p = failure_result ''easyocr'' e))
   \<and> (readtext p = Inl e \<longrightarrow> EasyOCREngine_recognize readtext p = failure_result ''easyocr'' e)
   \<and> (readtext p = Inr results \<and> reconstruct_layout (map easy_fragment results) = Inl e
      \<longrightarrow> EasyOCREngine_recognize readtext p = failure_result ''easyocr'' e)
   \<and> (res_success (TesseractOCREngine_recognize Image_open image_to_data image_to_string p)
      \<or> (\<exists>e. TesseractOCREngine_recognize Image_open image_to_data image_to_string p
             = failure_result ''tesseract'' e))
   \<and> (Image_open p = Inl e
        \<or> (\<exists>img. Image_open p = Inr img \<and>
              (image_to_data img = Inl e
               \<or> (\<exists>data. image_to_data img = Inr data \<and>
                     (image_to_string img = Inl e
                      \<or> (\<exists>s. image_to_string img = Inr s \<and> tess_lines data = Inl e)))))
      \<longrightarrow> TesseractOCREngine_recognize Image_open image_to_data image_to_string p
          = failure_result ''tesseract'' e)
   \<and> failure_result kind e
       = \<lparr>res_success = False, res_text = None, res_lines = None,
          res_engine = Some kind, res_error = Some (str_of_error e)\<rparr>
   \<and> reconstruct_layout [] = Inr ([], [])
   \<and> layout_text [] = Inr []
   \<and> (\<not> list_ex (\<lambda>l. bbox l = Polygon []) lines
      \<longrightarrow> (\<exists>out. reconstruct_layout lines = Inr (out, sort_key (\<lambda>l. get_cy (bbox l)) lines)))
   \<and> (lines \<noteq> [] \<and> list_ex (\<lambda>l. bbox l = Polygon []) lines
      \<longrightarrow> reconstruct_layout lines = Inl IndexError)"
proof -
  have p2: "ocr p = Inl e \<longrightarrow> PaddleOCREngine_recognize ocr p = failure_result ''paddleocr'' e"
    by (simp add: paddle_backend_raises)
  have p3: "ocr p = Inr result \<and>
        reconstruct_layout (case result of Some raw # u \<Rightarrow> map paddle_fragment raw | _ \<Rightarrow> [])
          = Inl e
      \<longrightarrow> PaddleOCREngine_recognize ocr p = failure_result ''paddleocr'' e"
    using paddle_backend_returns [of ocr p result] by auto
  have e2: "readtext p = Inl e \<longrightarrow> EasyOCREngine_recognize readtext p = failure_result ''easyocr'' e"
    by (simp add: easy_backend_raises)
  have e3: "readtext p = Inr results \<and> reconstruct_layout (map easy_fragment results) = Inl e
      \<longrightarrow> EasyOCREngine_recognize readtext p = failure_result ''easyocr'' e"
    using easy_backend_returns [of readtext p results] by auto
  have t2: "Image_open p = Inl e
        \<or> (\<exists>img. Image_open p = Inr img \<and>
              (image_to_data img = Inl e
               \<or> (\<exists>data. image_to_data img = Inr data \<and>
                     (image_to_string img = Inl e
                      \<or> (\<exists>s. image_to_string img = Inr s \<and> tess_lines data = Inl e)))))
      \<longrightarrow> TesseractOCREngine_recognize Image_open image_to_data image_to_string p
          = failure_result ''tesseract'' e"
    unfolding tesseract_cases by auto
  have f: "failure_result kind e
       = \<lparr>res_success = False, res_text = None, res_lines = None,
          res_engine = Some kind, res_error = Some (str_of_error e)\<rparr>"
    by (simp add: failure_result_def)
  have l0: "layout_text [] = Inr []"
    by (simp add: layout_text_def reconstruct_layout_Nil)
  have r1: "\<not> list_ex (\<lambda>l. bbox l = Polygon []) lines
      \<longrightarrow> (\<exists>out. reconstruct_layout lines = Inr (out, sort_key (\<lambda>l. get_cy (bbox l)) lines))"
    using reconstruct_layout_returns [of lines] by blast
  have r2: "lines \<noteq> [] \<and> list_ex (\<lambda>l. bbox l = Polygon []) lines
      \<longrightarrow> reconstruct_layout lines = Inl IndexError"
    using reconstruct_layout_raises [of lines] by blast
  from paddle_total [of ocr p] p2 p3 easy_total [of readtext p] e2 e3
    tesseract_total [of Image_open image_to_data image_to_string p] t2 f
    reconstruct_layout_Nil l0 r1 r2
  show ?thesis by (intro conjI)
qed


theorem recognize_never_propagates_witness:
  "PaddleOCREngine_recognize (\<lambda>p. Inl (BackendError ''boom'')) ''scan.png''
     = \<lparr>res_success = False, res_text = None, res_lines = None,
        res_engine = Some ''paddleocr'', res_error = Some ''boom''\<rparr>
   \<and> PaddleOCREngine_recognize (\<lambda>p. Inr [Some [(Polygon [], (''a'', 1))]]) ''scan.png''
     = \<lparr>res_success = False, res_text = None, res_lines = None,
        res_engine = Some ''paddleocr'', res_error = Some ''list index out of range''\<rparr>
   \<and> EasyOCREngine_recognize (\<lambda>p. Inr [([], ''a'', 1)]) ''scan.png''
     = \<lparr>res_success = False, res_text = None, res_lines = None,
        res_engine = Some ''easyocr'', res_error = Some ''list index out of range''\<rparr>
   \<and> TesseractOCREngine_recognize (\<lambda>p. Inr ()) (\<lambda>u. Inr \<lparr>d_text = [''x''], d_conf = [], d_left = [], d_top = [], d_width = [], d_height = []\<rparr>) (\<lambda>u. Inr ''x'') ''scan.png''
     = \<lparr>res_success = False, res_text = None, res_lines = None,
        res_engine = Some ''tesseract'', res_error = Some ''list index out of range''\<rparr>
   \<and> (\<exists>out. reconstruct_layout [\<lparr>text' = ''A'', confidence = 1, bbox = AxisAligned 0 0 50 20\<rparr>]
         = Inr (out, [\<lparr>text' = ''A'', confidence = 1, bbox = AxisAligned 0 0 50 20\<rparr>]))"
proof -
  have a: "PaddleOCREngine_recognize (\<lambda>p. Inl (BackendError ''boom'')) ''scan.png''
     = \<lparr>res_success = False, res_text = None, res_lines = None,
        res_engine = Some ''paddleocr'', res_error = Some ''boom''\<rparr>"
    using recognize_never_propagates [where ocr = "\<lambda>p. Inl (BackendError ''boom'')"
        and p = "''scan.png''"
        and e = "BackendError ''boom''"
        and kind = "''paddleocr''"
        and result = "[]"
        and readtext = "\<lambda>p. Inr []"
        and results = "[]"
        and Image_open = "\<lambda>p. Inr ()"
        and image_to_data = "\<lambda>u. Inr \<lparr>d_text = [], d_conf = [], d_left = [], d_top = [], d_width = [], d_height = []\<rparr>"
        and image_to_string = "\<lambda>u. Inr ''x''"
        and lines = "[]"]
    by (simp add: failure_result_def)
  have b: "PaddleOCREngine_recognize (\<lambda>p. Inr [Some [(Polygon [], (''a'', 1))]]) ''scan.png''
     = \<lparr>res_success = False, res_text = None, res_lines = None,
        res_engine = Some ''paddleocr'', res_error = Some ''list index out of range''\<rparr>"
    using recognize_never_propagates [where ocr = "\<lambda>p. Inr [Some [(Polygon [], (''a'', 1))]]"
        and p = "''scan.png''"
        and e = IndexError
        and kind = "''paddleocr''"
        and result = "[Some [(Polygon [], (''a'', 1))]]"
        and readtext = "\<lambda>p. Inr []"
        and results = "[]"
        and Image_open = "\<lambda>p. Inr ()"
        and image_to_data = "\<lambda>u. Inr \<lparr>d_text = [], d_conf = [], d_left = [], d_top = [], d_width = [], d_height = []\<rparr>"
        and image_to_string = "\<lambda>u. Inr ''x''"
        and lines = "[]"]
    by (simp add: paddle_fragment_def reconstruct_layout_def failure_result_def)
  have c: "EasyOCREngine_recognize (\<lambda>p. Inr [([], ''a'', 1)]) ''scan.png''
     = \<lparr>res_success = False, res_text = None, res_lines = None,
        res_engine = Some ''easyocr'', res_error = Some ''list index out of range''\<rparr>"
    using recognize_never_propagates [where ocr = "\<lambda>p. Inr []"
        and p = "''scan.png''"
        and e = IndexError
        and kind = "''easyocr''"
        and result = "[]"
        and readtext = "\<lambda>p. Inr [([], ''a'', 1)]"
        and results = "[([], ''a'', 1)]"
        and Image_open = "\<lambda>p. Inr ()"
        and image_to_data = "\<lambda>u. Inr \<lparr>d_text = [], d_conf = [], d_left = [], d_top = [], d_width = [], d_height = []\<rparr>"
        and image_to_string = "\<lambda>u. Inr ''x''"
        and lines = "[]"]
    by (simp add: easy_fragment_def reconstruct_layout_def failure_result_def)
  have d: "TesseractOCREngine_recognize (\<lambda>p. Inr ()) (\<lambda>u. Inr \<lparr>d_text = [''x''], d_conf = [], d_left = [], d_top = [], d_width = [], d_height = []\<rparr>) (\<lambda>u. Inr ''x'') ''scan.png''
     = \<lparr>res_success = False, res_text = None, res_lines = None,
        res_engine = Some ''tesseract'', res_error = Some ''list index out of range''\<rparr>"
    using recognize_never_propagates [where ocr = "\<lambda>p. Inr []"
        and p = "''scan.png''"
        and e = IndexError
        and kind = "''tesseract''"
        and result = "[]"
        and readtext = "\<lambda>p. Inr []"
        and results = "[]"
        and Image_open = "\<lambda>p. Inr ()"
        and image_to_data = "\<lambda>u. Inr \<lparr>d_text = [''x''], d_conf = [], d_left = [], d_top = [], d_width = [], d_height = []\<rparr>"
        and image_to_string = "\<lambda>u. Inr ''x''"
        and lines = "[]"]
    by (simp add: tess_lines_def tess_step_def py_index_def bind_err_def failure_result_def)
  have r: "\<exists>out. reconstruct_layout [\<lparr>text' = ''A'', confidence = 1, bbox = AxisAligned 0 0 50 20\<rparr>]
         = Inr (out, [\<lparr>text' = ''A'', confidence = 1, bbox = AxisAligned 0 0 50 20\<rparr>])"
    using recognize_never_propagates [where ocr = "\<lambda>p. Inr []"
        and p = "''scan.png''"
        and e = IndexError
        and kind = "''paddleocr''"
        and result = "[]"
        and readtext = "\<lambda>p. Inr []"
        and results = "[]"
        and Image_open = "\<lambda>p. Inr ()"
        and image_to_data = "\<lambda>u. Inr \<lparr>d_text = [], d_conf = [], d_left = [], d_top = [], d_width = [], d_height = []\<rparr>"
        and image_to_string = "\<lambda>u. Inr ''x''"
        and lines = "[\<lparr>text' = ''A'', confidence = 1, bbox = AxisAligned 0 0 50 20\<rparr>]"]
    by (simp add: failure_result_def)
  from a b c d r show ?thesis by (intro conjI)
qed

section \<open>The service's path check\<close>

text \<open>
  Claim C8.  For a path that does not exist, \<open>process_image\<close> returns the result
  with \<open>success = False\<close> and the error \<open>"Image file not found: <path>"\<close>,
  whatever the engine is, and leaves the engine's state as it was: \<open>recognize\<close>
  is not called.  For a path that exists it returns exactly what the engine's
  \<open>recognize\<close> returns on that path, with the state \<open>recognize\<close> leaves.
\<close>

theorem process_image_checks_path:
  "(\<not> path_exists image_path \<longrightarrow>
      process_image path_exists recognize image_path s
        = (\<lparr>res_success = False, res_text = None, res_lines = None, res_engine = None,
            res_error = Some (''Image file not found: '' @ image_path)\<rparr>, s))
   \<and> (path_exists image_path \<longrightarrow>
      process_image path_exists recognize image_path s = recognize image_path s)"
  by (simp add: process_image_def not_found_result_def)

theorem process_image_checks_path_witness:
  "\<not> (\<lambda>p. p = ''a.png'') ''missing.png''
   \<and> process_image (\<lambda>p. p = ''a.png'')
        (\<lambda>p calls. (success_result ''tesseract'' ''hi'' ([] :: int fragment list), calls @ [p])) ''missing.png'' []
      = (\<lparr>res_success = False, res_text = None, res_lines = None, res_engine = None,
          res_error = Some ''Image file not found: missing.png''\<rparr>, [])
   \<and> (\<lambda>p. p = ''a.png'') ''a.png''
   \<and> process_image (\<lambda>p. p = ''a.png'')
        (\<lambda>p calls. (success_result ''tesseract'' ''hi'' ([] :: int fragment list), calls @ [p])) ''a.png'' []
      = (success_result ''tesseract'' ''hi'' [], [''a.png''])"
proof -
  have a: "process_image (\<lambda>p. p = ''a.png'')
        (\<lambda>p calls. (success_result ''tesseract'' ''hi'' ([] :: int fragment list), calls @ [p])) ''missing.png'' []
      = (\<lparr>res_success = False, res_text = None, res_lines = None, res_engine = None,
          res_error = Some ''Image file not found: missing.png''\<rparr>, [])"
    using process_image_checks_path [where path_exists = "\<lambda>p. p = ''a.png''"
        and image_path = "''missing.png''" and s = "[]"
        and recognize = "\<lambda>p calls. (success_result ''tesseract'' ''hi'' ([] :: int fragment list), calls @ [p])"]
    by simp
  have b: "process_image (\<lambda>p. p = ''a.png'')
        (\<lambda>p calls. (success_result ''tesseract'' ''hi'' ([] :: int fragment list), calls @ [p])) ''a.png'' []
      = (success_result ''tesseract'' ''hi'' [], [''a.png''])"
    using process_image_checks_path [where path_exists = "\<lambda>p. p = ''a.png''"
        and image_path = "''a.png''" and s = "[]"
        and recognize = "\<lambda>p calls. (success_result ''tesseract'' ''hi'' ([] :: int fragment list), calls @ [p])"]
    by simp
  from a b show ?thesis by simp
qed

end
